theory Spec2Isabelle
  imports Main
begin

section \<open>The page-scrape routine of scraper.js\<close>

text \<open>
  The routine \<^verbatim>\<open>pageScrape(dept, arr, dateStr, url)\<close> drives a browser page, reads one
  record per result row, inserts each record into the datastore and closes the browser.
  Everything outside scraper.js (the browser, the page, the cursor, the datastore client
  and the functions of the \<^verbatim>\<open>./processing\<close> module) is a parameter of the model, the
  record \<open>world\<close>: each field answers one call of the source, with a value or with the
  error the call throws. The page is a fixed snapshot: the same query gets the same
  answer. The model returns what the source returns together with the trace of the
  calls it issued and the console lines it printed, in order.
\<close>

subsection \<open>Values and errors\<close>

text \<open>The JavaScript values the record fields hold.\<close>

datatype jsval = JNull | JBool bool | JNum int | JStr string | JArr "jsval list"

text \<open>
  A thrown JavaScript error. \<open>TypeError\<close> is what reading \<^verbatim>\<open>el.textContent\<close> throws
  when \<^verbatim>\<open>el\<close> is \<^verbatim>\<open>undefined\<close>; \<open>TimeoutError\<close> is what the bounded waits throw.
\<close>

datatype js_error = TimeoutError | TypeError | Error string

text \<open>An element handle returned by a page query.\<close>

type_synonym handle = nat

subsection \<open>The data model\<close>

text \<open>\<^verbatim>\<open>class MetadataObj\<close> and \<^verbatim>\<open>class FlightObj\<close>, field by field.\<close>

record MetadataObj =
  flightNums :: jsval
  numStops :: jsval
  planeChange :: jsval
  deptTime :: string
  arrTime :: string
  duration :: string
  prices :: "string list"
  seatsLeft :: "jsval list"

record FlightObj =
  departurePort :: string
  arrivalPort :: string
  date :: string
  metadata :: MetadataObj

subsection \<open>The page queries\<close>

text \<open>
  The row-indexed XPath queries of the row loop, one constructor per template. With
  \<open>R i\<close> for \<^verbatim>\<open>//*[@id="air-booking-product-0"]/div[6]/span/span/ul/li[i]\<close> and \<open>F i j\<close> for
  \<^verbatim>\<open>//*[@id="air-booking-fares-0-i"]/div[j]/button/span/span/span\<close>:
  \<^item> \<open>FlightNumSel i\<close> is \<^verbatim>\<open>R i/div[1]/div/div/button/span[1]\<close>;
  \<^item> \<open>NumStopsSel i\<close> is \<^verbatim>\<open>R i/div[4]/div/button/span[1]/div\<close>;
  \<^item> \<open>PlaneChangeSel i\<close> is \<^verbatim>\<open>R i/div[4]/div[2]\<close>;
  \<^item> \<open>DeptTimeSel i\<close> is \<^verbatim>\<open>R i/div[2]/span/text()\<close>, \<open>DeptTimeAmPmSel i\<close> is
    \<^verbatim>\<open>R i/div[2]/span/span[2]\<close>;
  \<^item> \<open>ArrTimeSel i\<close> is \<^verbatim>\<open>R i/div[3]/span/text()\<close>, \<open>ArrTimeAmPmSel i\<close> is
    \<^verbatim>\<open>R i/div[3]/span/span[2]\<close>;
  \<^item> \<open>DurationSel i\<close> is \<^verbatim>\<open>R i/div[5]\<close>;
  \<^item> \<open>PriceSel i j\<close> is \<^verbatim>\<open>F i j/span/span[2]/span[2]\<close>, \<open>SeatsLeftSel i j\<close> is
    \<^verbatim>\<open>F i j/div/span\<close>.
\<close>

datatype selector =
    FlightNumSel nat
  | NumStopsSel nat
  | PlaneChangeSel nat
  | DeptTimeSel nat
  | DeptTimeAmPmSel nat
  | ArrTimeSel nat
  | ArrTimeAmPmSel nat
  | DurationSel nat
  | PriceSel nat nat
  | SeatsLeftSel nat nat

subsection \<open>The environment\<close>

text \<open>What \<^verbatim>\<open>supabase.from("Flights").insert([flight])\<close> resolves to: \<^verbatim>\<open>{ data, error }\<close>.\<close>

record insert_result =
  data :: jsval
  error :: "string option"

text \<open>
  One field per call of the source. A field of type \<open>js_error option\<close> is a call whose
  value is not used: \<open>None\<close> means it completed, \<open>Some e\<close> that it threw \<open>e\<close>.
  \<^item> \<open>launch\<close>: \<^verbatim>\<open>puppeteerExtra.launch(...)\<close> in \<^verbatim>\<open>getBrowser\<close>;
  \<^item> \<open>newPage\<close>, \<open>createCursor\<close>, \<open>installMouseHelper\<close>: lines 103 to 105;
  \<^item> \<open>goto\<close>: \<^verbatim>\<open>page.goto(url, {waitUntil: "networkidle2", timeout: 90000})\<close>, which
    throws when the page does not become idle within the timeout;
  \<^item> \<open>page_url\<close>: \<^verbatim>\<open>page.url()\<close> after the load;
  \<^item> \<open>waitForXPath_submit t\<close>: \<^verbatim>\<open>page.waitForXPath\<close> for the submit button
    \<^verbatim>\<open>//*[@id="form-mixin--submit-button"]\<close> with timeout \<open>t\<close>;
  \<^item> \<open>cursor_click\<close>: \<^verbatim>\<open>cursor.click(search, ...)\<close>;
  \<^item> \<open>scrollBy\<close>: \<^verbatim>\<open>page.evaluate(() => window.scrollBy(0, 450))\<close>;
  \<^item> \<open>row_count\<close>: \<^verbatim>\<open>page.$$eval(".air-booking-select-detail", rows => rows.length)\<close>;
  \<^item> \<open>xpath\<close>: \<^verbatim>\<open>page.$x(...)\<close>, the handles of the matched elements;
  \<^item> \<open>textContent\<close>: \<^verbatim>\<open>page.evaluate(el => el.textContent, h)\<close> on a handle;
  \<^item> the four functions of \<^verbatim>\<open>./processing\<close>, whose source is not part of scraper.js: any
    functions from the raw text to a value, or to a thrown error;
  \<^item> \<open>db_insert k flight\<close>: what the \<open>k\<close>-th call (from 0) of
    \<^verbatim>\<open>supabase.from("Flights").insert([flight])\<close> resolves to. The client reports a failed
    request in the \<^verbatim>\<open>error\<close> field of the result; the call does not throw.
  \<^item> \<open>browser_close k\<close>: the \<open>k\<close>-th call (from 0) of \<^verbatim>\<open>browser.close()\<close>: \<open>None\<close> when it
    completes, and the browser is then closed; \<open>Some e\<close> when it throws \<open>e\<close>.
  \<^verbatim>\<open>page.waitForTimeout\<close> and the console always complete.
  Line 96, \<^verbatim>\<open>puppeteerExtra.use(pluginStealth())\<close>, only configures the launcher.
\<close>

record world =
  launch :: "js_error option"
  newPage :: "js_error option"
  createCursor :: "js_error option"
  installMouseHelper :: "js_error option"
  goto :: "string \<Rightarrow> js_error option"
  page_url :: string
  waitForXPath_submit :: "nat \<Rightarrow> js_error + handle"
  cursor_click :: "handle \<Rightarrow> js_error option"
  scrollBy :: "js_error option"
  row_count :: "js_error + nat"
  xpath :: "selector \<Rightarrow> js_error + handle list"
  textContent :: "handle \<Rightarrow> js_error + string"
  processFlightNums :: "string \<Rightarrow> js_error + jsval"
  processNumStops :: "string \<Rightarrow> js_error + jsval"
  processSeatsLeft :: "string \<Rightarrow> js_error + jsval"
  processPlaneChange :: "string \<Rightarrow> js_error + jsval"
  db_insert :: "nat \<Rightarrow> FlightObj \<Rightarrow> insert_result"
  browser_close :: "nat \<Rightarrow> js_error option"

subsection \<open>The trace\<close>

text \<open>
  The console lines of the source, by their text:
  \<open>Starting\<close> (line 98), \<open>PuppeteerLaunchError\<close> (58), \<open>RedirectDetected\<close> (110),
  \<open>NoSearchButton\<close> (122), \<open>NoFlightData\<close> (136), \<open>ErrorProcessingFlight\<close> (268),
  \<open>Flights\<close> (272), \<open>SupabaseInsertError\<close> (276), \<open>InsertedFlightData\<close> (278),
  \<open>FatalScraperError\<close> (285).
\<close>

datatype message =
    Starting string string string
  | PuppeteerLaunchError js_error
  | RedirectDetected
  | NoSearchButton
  | NoFlightData
  | ErrorProcessingFlight nat js_error
  | Flights "FlightObj list"
  | SupabaseInsertError string
  | InsertedFlightData jsval
  | FatalScraperError js_error

datatype level = LOG | WARN | ERROR

text \<open>
  An event is a console line or a call issued on the page, the cursor, the datastore or
  the browser. The row loop's queries (\<open>xpath\<close>, \<open>textContent\<close>) only read the page and
  are not recorded.
\<close>

datatype event =
    Console level message
  | Goto string nat
  | WaitForXPath nat
  | CursorClick handle nat nat
  | WaitForTimeout nat
  | ScrollBy int int
  | CountRows
  | Insert FlightObj
  | BrowserClose

text \<open>
  How an invocation ends: it returns the flights array (\<open>Some\<close>) or \<^verbatim>\<open>null\<close> (\<open>None\<close>);
  or \<^verbatim>\<open>getBrowser\<close> ends the process with \<^verbatim>\<open>process.exit(1)\<close>; or an error leaves the
  \<^verbatim>\<open>catch\<close> block of lines 284 to 288 and the invocation ends by throwing it.
\<close>

datatype outcome = Returned "FlightObj list option" | ProcessExit nat | Rejected js_error

subsection \<open>Reading one row\<close>

text \<open>
  \<^verbatim>\<open>els[0]\<close> of a JavaScript array: \<^verbatim>\<open>undefined\<close> (\<open>None\<close>) when the array is empty.
\<close>

definition first :: "handle list \<Rightarrow> handle option" where
  "first els = (case els of [] \<Rightarrow> None | el # _ \<Rightarrow> Some el)"

text \<open>
  \<^verbatim>\<open>await page.evaluate((el) => el.textContent, x)\<close>: with \<^verbatim>\<open>x\<close> undefined the callback
  reads a property of \<^verbatim>\<open>undefined\<close>, and the call throws a TypeError.
\<close>

definition evaluate_textContent :: "world \<Rightarrow> handle option \<Rightarrow> js_error + string" where
  "evaluate_textContent w x = (case x of None \<Rightarrow> Inl TypeError | Some el \<Rightarrow> textContent w el)"

text \<open>Sequencing of calls that may throw: the first error ends the sequence.\<close>

definition and_then :: "js_error + 'a \<Rightarrow> ('a \<Rightarrow> js_error + 'b) \<Rightarrow> js_error + 'b" where
  "and_then m f = (case m of Inl e \<Rightarrow> Inl e | Inr v \<Rightarrow> f v)"

text \<open>Lines 155 to 163.\<close>

definition extract_flightNums :: "world \<Rightarrow> nat \<Rightarrow> js_error + jsval" where
  "extract_flightNums w i =
     and_then (xpath w (FlightNumSel i)) (\<lambda>flightNumElement.
       if length flightNumElement > 0
       then and_then (evaluate_textContent w (first flightNumElement)) (processFlightNums w)
       else Inr (JArr []))"

text \<open>Lines 166 to 174.\<close>

definition extract_numStops :: "world \<Rightarrow> nat \<Rightarrow> js_error + jsval" where
  "extract_numStops w i =
     and_then (xpath w (NumStopsSel i)) (\<lambda>numStopsElement.
       if length numStopsElement > 0
       then and_then (evaluate_textContent w (first numStopsElement)) (processNumStops w)
       else Inr (JStr ''Nonstop''))"

text \<open>Lines 177 to 188.\<close>

definition extract_planeChange :: "world \<Rightarrow> nat \<Rightarrow> js_error + jsval" where
  "extract_planeChange w i =
     and_then (xpath w (PlaneChangeSel i)) (\<lambda>planeChangeElement.
       if length planeChangeElement > 0
       then and_then (evaluate_textContent w (first planeChangeElement)) (processPlaneChange w)
       else Inr JNull)"

text \<open>
  Lines 191 to 203 and 206 to 218: both queries, then the two reads inside the template
  literal, left to right, joined by a space. There is no test of the match count.
\<close>

definition extract_time :: "world \<Rightarrow> selector \<Rightarrow> selector \<Rightarrow> js_error + string" where
  "extract_time w timeSel amPmSel =
     and_then (xpath w timeSel) (\<lambda>timeElement.
     and_then (xpath w amPmSel) (\<lambda>amPmElement.
     and_then (evaluate_textContent w (first timeElement)) (\<lambda>t.
     and_then (evaluate_textContent w (first amPmElement)) (\<lambda>m.
       Inr (t @ '' '' @ m)))))"

text \<open>Lines 221 to 227.\<close>

definition extract_duration :: "world \<Rightarrow> nat \<Rightarrow> js_error + string" where
  "extract_duration w i =
     and_then (xpath w (DurationSel i)) (\<lambda>durationElement.
       evaluate_textContent w (first durationElement))"

text \<open>Lines 231 to 238: the value pushed onto \<^verbatim>\<open>prices\<close> for tier \<open>j\<close>.\<close>

definition extract_price :: "world \<Rightarrow> nat \<Rightarrow> nat \<Rightarrow> js_error + string" where
  "extract_price w i j =
     and_then (xpath w (PriceSel i j)) (\<lambda>priceElement.
       if length priceElement > 0
       then evaluate_textContent w (first priceElement)
       else Inr ''Unavailable'')"

text \<open>Lines 240 to 252: the value pushed onto \<^verbatim>\<open>seatsLeft\<close> for tier \<open>j\<close>.\<close>

definition extract_seatsLeft :: "world \<Rightarrow> nat \<Rightarrow> nat \<Rightarrow> js_error + jsval" where
  "extract_seatsLeft w i j =
     and_then (xpath w (SeatsLeftSel i j)) (\<lambda>seatsLeftElement.
       if length seatsLeftElement > 0
       then and_then (evaluate_textContent w (first seatsLeftElement)) (processSeatsLeft w)
       else Inr JNull)"

text \<open>
  The loop \<^verbatim>\<open>for (let j = 1; j <= 3; j++)\<close> of lines 230 to 253, on the two arrays.
\<close>

function fares_loop ::
  "world \<Rightarrow> nat \<Rightarrow> nat \<Rightarrow> string list \<times> jsval list \<Rightarrow> js_error + string list \<times> jsval list"
where
  "fares_loop w i j (ps, ss) =
     (if j \<le> 3
      then and_then (extract_price w i j) (\<lambda>p.
           and_then (extract_seatsLeft w i j) (\<lambda>s.
             fares_loop w i (j + 1) (ps @ [p], ss @ [s])))
      else Inr (ps, ss))"
  by pat_completeness auto
termination
  by (relation "measure (\<lambda>(w, i, j, acc). 4 - j)") auto

text \<open>
  The body of the \<^verbatim>\<open>try\<close> of lines 153 to 266 for row \<open>i\<close>: the record pushed onto
  \<^verbatim>\<open>flights\<close>, or the error that reaches the \<^verbatim>\<open>catch\<close> of line 267.
\<close>

definition extractRow :: "world \<Rightarrow> string \<Rightarrow> string \<Rightarrow> string \<Rightarrow> nat \<Rightarrow> js_error + FlightObj" where
  "extractRow w dept arr dateStr i =
     and_then (extract_flightNums w i) (\<lambda>fn.
     and_then (extract_numStops w i) (\<lambda>ns.
     and_then (extract_planeChange w i) (\<lambda>pc.
     and_then (extract_time w (DeptTimeSel i) (DeptTimeAmPmSel i)) (\<lambda>dt.
     and_then (extract_time w (ArrTimeSel i) (ArrTimeAmPmSel i)) (\<lambda>at.
     and_then (extract_duration w i) (\<lambda>du.
     and_then (fares_loop w i 1 ([], [])) (\<lambda>(ps, ss).
       Inr \<lparr>departurePort = dept, arrivalPort = arr, date = dateStr,
            metadata = \<lparr>flightNums = fn, numStops = ns, planeChange = pc,
                        deptTime = dt, arrTime = at, duration = du,
                        prices = ps, seatsLeft = ss\<rparr>\<rparr>)))))))"

subsection \<open>The row loop and the persistence loop\<close>

text \<open>
  The loop \<^verbatim>\<open>for (let i = 1; i <= count; i++)\<close> of lines 143 to 270, on \<^verbatim>\<open>flights\<close> and
  the trace: a row that throws adds a console line and no record.
\<close>

function rows_loop ::
  "world \<Rightarrow> string \<Rightarrow> string \<Rightarrow> string \<Rightarrow> nat \<Rightarrow> nat \<Rightarrow> FlightObj list \<times> event list
     \<Rightarrow> FlightObj list \<times> event list"
where
  "rows_loop w dept arr dateStr count i (flights, tr) =
     (if i \<le> count
      then (case extractRow w dept arr dateStr i of
              Inr flight \<Rightarrow> rows_loop w dept arr dateStr count (i + 1) (flights @ [flight], tr)
            | Inl e \<Rightarrow>
                rows_loop w dept arr dateStr count (i + 1)
                  (flights, tr @ [Console ERROR (ErrorProcessingFlight i e)]))
      else (flights, tr))"
  by pat_completeness auto
termination
  by (relation "measure (\<lambda>(w, dept, arr, dateStr, count, i, acc). Suc count - i)") auto

text \<open>
  The loop \<^verbatim>\<open>for (const flight of flights)\<close> of lines 273 to 280; \<open>k\<close> counts the insert
  calls made so far. \<open>insert_line\<close> is the console line of lines 275 to 279 for the
  result of one insert.
\<close>

definition insert_line :: "insert_result \<Rightarrow> event" where
  "insert_line res =
     (case error res of
        Some err \<Rightarrow> Console ERROR (SupabaseInsertError err)
      | None \<Rightarrow> Console LOG (InsertedFlightData (data res)))"

fun persist :: "world \<Rightarrow> nat \<Rightarrow> FlightObj list \<Rightarrow> event list \<Rightarrow> event list" where
  "persist w k [] tr = tr"
| "persist w k (flight # rest) tr =
     persist w (Suc k) rest (tr @ [Insert flight, insert_line (db_insert w k flight)])"

subsection \<open>Reading a trace\<close>

text \<open>The records handed to the datastore, in the order of the insert calls.\<close>

fun inserts_of :: "event list \<Rightarrow> FlightObj list" where
  "inserts_of [] = []"
| "inserts_of (Insert flight # tr) = flight # inserts_of tr"
| "inserts_of (_ # tr) = inserts_of tr"

text \<open>The number of \<^verbatim>\<open>browser.close()\<close> calls.\<close>

definition closes_of :: "event list \<Rightarrow> nat" where
  "closes_of tr = length (filter (\<lambda>ev. ev = BrowserClose) tr)"

text \<open>The pointer clicks.\<close>

fun is_click :: "event \<Rightarrow> bool" where
  "is_click (CursorClick search waitForClick paddingPercentage) = True"
| "is_click _ = False"

subsection \<open>The invocation\<close>

text \<open>
  Lines 109 to 124: the redirect check. Whatever the three calls of the inner \<^verbatim>\<open>try\<close>
  throw is caught at line 121, so the block always completes.
\<close>

definition redirect_check :: "world \<Rightarrow> string \<Rightarrow> event list \<Rightarrow> event list" where
  "redirect_check w url tr =
     (if page_url w \<noteq> url
      then (let tr1 = tr @ [Console LOG RedirectDetected, WaitForXPath 5000]
            in case waitForXPath_submit w 5000 of
                 Inl e \<Rightarrow> tr1 @ [Console WARN NoSearchButton]
               | Inr search \<Rightarrow>
                   (case cursor_click w search of
                      Some e \<Rightarrow> tr1 @ [CursorClick search 2500 25, Console WARN NoSearchButton]
                    | None \<Rightarrow> tr1 @ [CursorClick search 2500 25, WaitForTimeout 5000]))
      else tr)"

text \<open>
  \<^verbatim>\<open>await browser.close(); return r;\<close> inside the outer \<^verbatim>\<open>try\<close> (lines 137 and 138,
  lines 282 and 283). The call is the next close call of the invocation; when it throws,
  the \<^verbatim>\<open>return\<close> is not reached and the error goes to the \<^verbatim>\<open>catch\<close> of line 284.
\<close>

definition close_and_return ::
  "world \<Rightarrow> FlightObj list option \<Rightarrow> event list
     \<Rightarrow> (js_error + FlightObj list option) \<times> event list"
where
  "close_and_return w r tr =
     (case browser_close w (closes_of tr) of
        Some e \<Rightarrow> (Inl e, tr @ [BrowserClose])
      | None \<Rightarrow> (Inr r, tr @ [BrowserClose]))"

text \<open>
  The body of the outer \<^verbatim>\<open>try\<close>, lines 103 to 283: the value it returns, or the error
  that reaches the \<^verbatim>\<open>catch\<close> of line 284, and the trace up to there.
\<close>

definition scrape_try ::
  "world \<Rightarrow> string \<Rightarrow> string \<Rightarrow> string \<Rightarrow> string \<Rightarrow> event list
     \<Rightarrow> (js_error + FlightObj list option) \<times> event list"
where
  "scrape_try w dept arr dateStr url tr =
     (case newPage w of Some e \<Rightarrow> (Inl e, tr) | None \<Rightarrow>
     (case createCursor w of Some e \<Rightarrow> (Inl e, tr) | None \<Rightarrow>
     (case installMouseHelper w of Some e \<Rightarrow> (Inl e, tr) | None \<Rightarrow>
     (case goto w url of Some e \<Rightarrow> (Inl e, tr @ [Goto url 90000]) | None \<Rightarrow>
     (let tr2 = redirect_check w url (tr @ [Goto url 90000]) @ [ScrollBy 0 450]
      in (case scrollBy w of Some e \<Rightarrow> (Inl e, tr2) | None \<Rightarrow>
         (let tr3 = tr2 @ [WaitForTimeout 3000, CountRows]
          in (case row_count w of Inl e \<Rightarrow> (Inl e, tr3) | Inr count \<Rightarrow>
             (if count = 0
              then close_and_return w None (tr3 @ [Console WARN NoFlightData])
              else (let (flights, tr4) = rows_loop w dept arr dateStr count 1 ([], tr3);
                        tr5 = persist w 0 flights (tr4 @ [Console LOG (Flights flights)])
                    in close_and_return w (Some flights) tr5))))))))))"

text \<open>
  The \<^verbatim>\<open>catch\<close> of lines 284 to 288, entered with the error \<open>e\<close>: the error line, the next
  close call of the invocation, and \<^verbatim>\<open>return null\<close>; when this close call throws, its
  error leaves \<^verbatim>\<open>pageScrape\<close>.
\<close>

definition catch_fatal :: "world \<Rightarrow> js_error \<Rightarrow> event list \<Rightarrow> outcome \<times> event list" where
  "catch_fatal w e tr =
     (let tr1 = tr @ [Console ERROR (FatalScraperError e)]
      in case browser_close w (closes_of tr1) of
           Some e' \<Rightarrow> (Rejected e', tr1 @ [BrowserClose])
         | None \<Rightarrow> (Returned None, tr1 @ [BrowserClose]))"

text \<open>
  \<^verbatim>\<open>pageScrape\<close>, lines 95 to 289. \<^verbatim>\<open>getBrowser\<close> (lines 42 to 61) ends the process when
  the launch throws; otherwise the \<^verbatim>\<open>try\<close> runs, and what it throws goes to the \<^verbatim>\<open>catch\<close>.
\<close>

definition pageScrape :: "world \<Rightarrow> string \<Rightarrow> string \<Rightarrow> string \<Rightarrow> string \<Rightarrow> outcome \<times> event list" where
  "pageScrape w dept arr dateStr url =
     (let tr0 = [Console LOG (Starting dept arr dateStr)]
      in case launch w of
           Some e \<Rightarrow> (ProcessExit 1, tr0 @ [Console ERROR (PuppeteerLaunchError e)])
         | None \<Rightarrow>
             (case scrape_try w dept arr dateStr url tr0 of
                (Inr r, tr) \<Rightarrow> (Returned r, tr)
              | (Inl e, tr) \<Rightarrow> catch_fatal w e tr))"

subsection \<open>Invocations that reach the row count\<close>

text \<open>
  The invocation gets as far as the row count: the browser starts and no call before
  \<^verbatim>\<open>page.$$eval\<close> throws.
\<close>

definition navigated :: "world \<Rightarrow> string \<Rightarrow> bool" where
  "navigated w url \<longleftrightarrow>
     launch w = None \<and> newPage w = None \<and> createCursor w = None \<and>
     installMouseHelper w = None \<and> goto w url = None \<and> scrollBy w = None"

text \<open>The trace of such an invocation up to and including the row count.\<close>

definition nav_trace :: "world \<Rightarrow> string \<Rightarrow> string \<Rightarrow> string \<Rightarrow> string \<Rightarrow> event list" where
  "nav_trace w dept arr dateStr url =
     redirect_check w url [Console LOG (Starting dept arr dateStr), Goto url 90000]
       @ [ScrollBy 0 450, WaitForTimeout 3000, CountRows]"

text \<open>
  The rows of \<open>1..count\<close> whose extraction throws, and those whose extraction yields a
  record.
\<close>

definition failed_rows :: "world \<Rightarrow> string \<Rightarrow> string \<Rightarrow> string \<Rightarrow> nat \<Rightarrow> nat list" where
  "failed_rows w dept arr dateStr count =
     filter (\<lambda>k. isl (extractRow w dept arr dateStr k)) [1..<Suc count]"

definition extracted_rows :: "world \<Rightarrow> string \<Rightarrow> string \<Rightarrow> string \<Rightarrow> nat \<Rightarrow> nat list" where
  "extracted_rows w dept arr dateStr count =
     filter (\<lambda>k. \<not> isl (extractRow w dept arr dateStr k)) [1..<Suc count]"

subsection \<open>A fixture page\<close>

text \<open>
  A results page with two rows. Row 1 has every element and three fare tiers, the first
  with a seats-left note; row 2 has no plane-change note and no price or seat element.
  The page loads on the requested address. The first insert call fails, the later ones
  succeed. Closing the browser completes. The processing functions are stand-ins that wrap the raw text.
\<close>

definition fixture_url :: string where
  "fixture_url = ''https://www.southwest.com/air/booking/select.html''"

definition fixture_xpath :: "selector \<Rightarrow> js_error + handle list" where
  "fixture_xpath sel =
     (case sel of
        FlightNumSel i \<Rightarrow> Inr [0]
      | NumStopsSel i \<Rightarrow> Inr [1]
      | PlaneChangeSel i \<Rightarrow> Inr (if i = 1 then [2] else [])
      | DeptTimeSel i \<Rightarrow> Inr [3]
      | DeptTimeAmPmSel i \<Rightarrow> Inr [4]
      | ArrTimeSel i \<Rightarrow> Inr [5]
      | ArrTimeAmPmSel i \<Rightarrow> Inr [6]
      | DurationSel i \<Rightarrow> Inr [7]
      | PriceSel i j \<Rightarrow> Inr (if i = 1 then [7 + j] else [])
      | SeatsLeftSel i j \<Rightarrow> Inr (if i = 1 \<and> j = 1 then [11] else []))"

definition fixture_texts :: "string list" where
  "fixture_texts =
     [''# 1234 / 567'', ''1 stop'', ''Change planes HOU'', ''8:05'', ''AM'', ''11:40'', ''AM'',
      ''3h 35m'', ''199'', ''249'', ''399'', ''3 left'']"

definition fixture_textContent :: "handle \<Rightarrow> js_error + string" where
  "fixture_textContent h =
     (if h < length fixture_texts then Inr (fixture_texts ! h) else Inl (Error ''detached''))"

definition fixture :: world where
  "fixture =
     \<lparr>launch = None, newPage = None, createCursor = None, installMouseHelper = None,
      goto = (\<lambda>url. None), page_url = fixture_url,
      waitForXPath_submit = (\<lambda>t. Inl TimeoutError), cursor_click = (\<lambda>h. None),
      scrollBy = None, row_count = Inr 2,
      xpath = fixture_xpath, textContent = fixture_textContent,
      processFlightNums = (\<lambda>s. Inr (JArr [JStr s])),
      processNumStops = (\<lambda>s. Inr (JStr s)),
      processSeatsLeft = (\<lambda>s. Inr (JStr s)),
      processPlaneChange = (\<lambda>s. Inr (JBool True)),
      db_insert = (\<lambda>k flight. \<lparr>data = JNull, error = (if k = 0 then Some ''timeout'' else None)\<rparr>),
      browser_close = (\<lambda>k. None)\<rparr>"

text \<open>The two records of the fixture page.\<close>

definition fixture_flight1 :: FlightObj where
  "fixture_flight1 =
     \<lparr>departurePort = ''DAL'', arrivalPort = ''HOU'', date = ''2025-02-01'',
      metadata = \<lparr>flightNums = JArr [JStr ''# 1234 / 567''], numStops = JStr ''1 stop'',
                  planeChange = JBool True, deptTime = ''8:05 AM'', arrTime = ''11:40 AM'',
                  duration = ''3h 35m'', prices = [''199'', ''249'', ''399''],
                  seatsLeft = [JStr ''3 left'', JNull, JNull]\<rparr>\<rparr>"

definition fixture_flight2 :: FlightObj where
  "fixture_flight2 =
     \<lparr>departurePort = ''DAL'', arrivalPort = ''HOU'', date = ''2025-02-01'',
      metadata = \<lparr>flightNums = JArr [JStr ''# 1234 / 567''], numStops = JStr ''1 stop'',
                  planeChange = JNull, deptTime = ''8:05 AM'', arrTime = ''11:40 AM'',
                  duration = ''3h 35m'',
                  prices = [''Unavailable'', ''Unavailable'', ''Unavailable''],
                  seatsLeft = [JNull, JNull, JNull]\<rparr>\<rparr>"

text \<open>Variants of the fixture page.\<close>

text \<open>No result row.\<close>

definition fixture_empty :: world where
  "fixture_empty = fixture\<lparr>row_count := Inr 0\<rparr>"

text \<open>The load does not become idle within the timeout.\<close>

definition fixture_load_timeout :: world where
  "fixture_load_timeout = fixture\<lparr>goto := (\<lambda>url. Some TimeoutError)\<rparr>"

text \<open>The departure-time text of row 2 is not on the page; all else is as before.\<close>

definition fixture_no_deptTime2 :: world where
  "fixture_no_deptTime2 =
     fixture\<lparr>xpath := (\<lambda>sel. if sel = DeptTimeSel 2 then Inr [] else fixture_xpath sel)\<rparr>"

text \<open>The text of the first flight-number element cannot be read (row 1 throws).\<close>

definition fixture_row1_throws :: world where
  "fixture_row1_throws =
     fixture\<lparr>xpath := (\<lambda>sel. if sel = FlightNumSel 1 then Inr [99] else fixture_xpath sel)\<rparr>"


text \<open>
  The load lands on the search form: with a submit button (handle 42), with none, and
  with a button whose click throws.
\<close>

definition search_form_url :: string where
  "search_form_url = ''https://www.southwest.com/air/booking/''"

definition fixture_redirect :: world where
  "fixture_redirect =
     fixture\<lparr>page_url := search_form_url, waitForXPath_submit := (\<lambda>t. Inr 42)\<rparr>"

definition fixture_redirect_no_button :: world where
  "fixture_redirect_no_button = fixture\<lparr>page_url := search_form_url\<rparr>"

definition fixture_redirect_click_throws :: world where
  "fixture_redirect_click_throws =
     fixture_redirect\<lparr>cursor_click := (\<lambda>h. Some (Error ''click failed''))\<rparr>"

text \<open>
  Closing the browser throws: the first call only, on the page without rows; and every
  call, on the page whose load times out.
\<close>

definition fixture_close_throws_once :: world where
  "fixture_close_throws_once =
     fixture_empty\<lparr>browser_close := (\<lambda>k. if k = 0 then Some (Error ''close failed'') else None)\<rparr>"

definition fixture_close_throws :: world where
  "fixture_close_throws =
     fixture_load_timeout\<lparr>browser_close := (\<lambda>k. Some (Error ''close failed''))\<rparr>"

section \<open>Properties of the loops\<close>

subsection \<open>Sequencing\<close>

lemma and_then_Inl [simp]: "and_then (Inl e) f = Inl e"
  by (simp add: and_then_def)

lemma and_then_Inr [simp]: "and_then (Inr v) f = f v"
  by (simp add: and_then_def)

lemma and_then_eq_Inr: "and_then m f = Inr y \<longleftrightarrow> (\<exists>v. m = Inr v \<and> f v = Inr y)"
  by (cases m) simp_all

declare fares_loop.simps [simp del]
declare rows_loop.simps [simp del]

lemma fares_loop_unfold:
  "fares_loop w i 1 ([], []) =
     and_then (extract_price w i 1) (\<lambda>p1. and_then (extract_seatsLeft w i 1) (\<lambda>s1.
     and_then (extract_price w i 2) (\<lambda>p2. and_then (extract_seatsLeft w i 2) (\<lambda>s2.
     and_then (extract_price w i 3) (\<lambda>p3. and_then (extract_seatsLeft w i 3) (\<lambda>s3.
       Inr ([p1, p2, p3], [s1, s2, s3])))))))"
proof -
  have 4: "fares_loop w i 4 acc = Inr acc" for acc
    by (cases acc) (simp add: fares_loop.simps)
  have 3: "fares_loop w i 3 (ps, ss) =
      and_then (extract_price w i 3) (\<lambda>p. and_then (extract_seatsLeft w i 3) (\<lambda>s.
        Inr (ps @ [p], ss @ [s])))" for ps ss
    by (subst fares_loop.simps) (simp add: 4)
  have 2: "fares_loop w i 2 (ps, ss) =
      and_then (extract_price w i 2) (\<lambda>p. and_then (extract_seatsLeft w i 2) (\<lambda>s.
        fares_loop w i 3 (ps @ [p], ss @ [s])))" for ps ss
    by (subst fares_loop.simps) simp
  have 1: "fares_loop w i 1 (ps, ss) =
      and_then (extract_price w i 1) (\<lambda>p. and_then (extract_seatsLeft w i 1) (\<lambda>s.
        fares_loop w i 2 (ps @ [p], ss @ [s])))" for ps ss
    by (subst fares_loop.simps) (simp add: numeral_2_eq_2)
  show ?thesis
    unfolding 1 2 3 by simp
qed

lemma fares_loop_length:
  "fares_loop w i j (ps, ss) = Inr (ps', ss') \<Longrightarrow> j \<le> 4 \<Longrightarrow>
     length ps' = length ps + (4 - j) \<and> length ss' = length ss + (4 - j)"
proof (induction w i j "(ps, ss)" arbitrary: ps ss rule: fares_loop.induct)
  case (1 w i j ps ss)
  show ?case
  proof (cases "j \<le> 3")
    case True
    from "1.prems"(1) True obtain p s where
      p: "extract_price w i j = Inr p" and s: "extract_seatsLeft w i j = Inr s"
      and r: "fares_loop w i (j + 1) (ps @ [p], ss @ [s]) = Inr (ps', ss')"
      by (subst (asm) fares_loop.simps) (auto simp: and_then_eq_Inr)
    from "1.hyps" [OF True r] True show ?thesis by simp arith
  next
    case False
    with "1.prems" show ?thesis
      by (subst (asm) fares_loop.simps) simp
  qed
qed

subsection \<open>The row loop and the persistence loop\<close>

lemma rows_loop_eq:
  "rows_loop w dept arr dateStr count i (flights, tr) =
     (flights @ map (\<lambda>k. projr (extractRow w dept arr dateStr k))
                  (filter (\<lambda>k. \<not> isl (extractRow w dept arr dateStr k)) [i..<Suc count]),
      tr @ map (\<lambda>k. Console ERROR (ErrorProcessingFlight k (projl (extractRow w dept arr dateStr k))))
             (filter (\<lambda>k. isl (extractRow w dept arr dateStr k)) [i..<Suc count]))"
proof (induction w dept arr dateStr count i "(flights, tr)" arbitrary: flights tr
         rule: rows_loop.induct)
  case (1 w dept arr dateStr count i flights tr)
  show ?case
  proof (cases "i \<le> count")
    case False
    then show ?thesis
      by (subst rows_loop.simps) simp
  next
    case True
    then have upt: "[i..<Suc count] = i # [Suc i..<Suc count]"
      by (simp add: upt_conv_Cons)
    show ?thesis
    proof (cases "extractRow w dept arr dateStr i")
      case (Inl e)
      with True "1.hyps"(1) [OF True Inl] show ?thesis
        by (subst rows_loop.simps) (simp add: upt del: upt_Suc)
    next
      case (Inr flight)
      with True "1.hyps"(2) [OF True Inr] show ?thesis
        by (subst rows_loop.simps) (simp add: upt del: upt_Suc)
    qed
  qed
qed

lemma inserts_of_append [simp]: "inserts_of (xs @ ys) = inserts_of xs @ inserts_of ys"
  by (induction xs rule: inserts_of.induct) simp_all

lemma closes_of_append [simp]: "closes_of (xs @ ys) = closes_of xs + closes_of ys"
  by (simp add: closes_of_def)

lemma closes_of_simps [simp]:
  "closes_of [] = 0"
  "closes_of (BrowserClose # tr) = Suc (closes_of tr)"
  "ev \<noteq> BrowserClose \<Longrightarrow> closes_of (ev # tr) = closes_of tr"
  by (simp_all add: closes_of_def)

lemma persist_eq:
  "persist w k flights tr =
     tr @ concat (map (\<lambda>(n, flight). [Insert flight, insert_line (db_insert w n flight)])
                   (zip [k..<k + length flights] flights))"
proof (induction flights arbitrary: k tr)
  case Nil
  show ?case by simp
next
  case (Cons flight rest)
  have "[k..<k + length (flight # rest)] = k # [Suc k..<Suc k + length rest]"
    by (subst upt_rec) simp
  then show ?case
    by (simp add: Cons.IH del: upt_Suc)
qed


lemma closes_of_persist: "closes_of (persist w k flights tr) = closes_of tr"
  by (induction flights arbitrary: k tr) (simp_all add: insert_line_def split: option.split)

lemma closes_of_rows_loop:
  "closes_of (snd (rows_loop w dept arr dateStr count i (flights, tr))) = closes_of tr"
  by (simp add: rows_loop_eq closes_of_def filter_map comp_def)

lemma inserts_of_rows_loop:
  "inserts_of (snd (rows_loop w dept arr dateStr count i (flights, tr))) = inserts_of tr"
proof -
  have "inserts_of (map (\<lambda>k. Console ERROR (f k)) ks) = []" for f :: "nat \<Rightarrow> message" and ks
    by (induction ks) simp_all
  then show ?thesis
    by (simp add: rows_loop_eq)
qed

lemma closes_of_redirect_check: "closes_of (redirect_check w url tr) = closes_of tr"
  by (simp add: redirect_check_def Let_def split: sum.split option.split)

lemma inserts_of_redirect_check: "inserts_of (redirect_check w url tr) = inserts_of tr"
  by (simp add: redirect_check_def Let_def split: sum.split option.split)

subsection \<open>The shape of an invocation\<close>

lemma closes_of_map_Console: "closes_of (map (\<lambda>k. Console l (f k)) ks) = 0"
  by (induction ks) simp_all

lemma closes_of_nav_trace: "closes_of (nav_trace w dept arr dateStr url) = 0"
  by (simp add: nav_trace_def closes_of_redirect_check)

lemma pageScrape_navigated_any:
  assumes "navigated w url" and "row_count w = Inr count"
  shows "pageScrape w dept arr dateStr url =
     (let flights = map (\<lambda>k. projr (extractRow w dept arr dateStr k))
                        (extracted_rows w dept arr dateStr count);
          r = (if count = 0 then None else Some flights);
          tr = (if count = 0
                then nav_trace w dept arr dateStr url @ [Console WARN NoFlightData]
                else persist w 0 flights
                       (nav_trace w dept arr dateStr url
                        @ map (\<lambda>k. Console ERROR
                                 (ErrorProcessingFlight k (projl (extractRow w dept arr dateStr k))))
                            (failed_rows w dept arr dateStr count)
                        @ [Console LOG (Flights flights)]))
      in case browser_close w 0 of
           None \<Rightarrow> (Returned r, tr @ [BrowserClose])
         | Some e \<Rightarrow> catch_fatal w e (tr @ [BrowserClose]))"
proof -
  show ?thesis
    using assms
    by (simp add: pageScrape_def scrape_try_def navigated_def rows_loop_eq nav_trace_def
        extracted_rows_def failed_rows_def close_and_return_def
        closes_of_redirect_check closes_of_persist closes_of_map_Console Let_def
        del: upt_Suc split: option.split)
qed

lemma pageScrape_navigated:
  assumes "navigated w url" and "row_count w = Inr count" and "browser_close w 0 = None"
  shows "pageScrape w dept arr dateStr url =
     (if count = 0
      then (Returned None,
            nav_trace w dept arr dateStr url @ [Console WARN NoFlightData, BrowserClose])
      else (let flights = map (\<lambda>k. projr (extractRow w dept arr dateStr k))
                            (extracted_rows w dept arr dateStr count)
            in (Returned (Some flights),
                persist w 0 flights
                  (nav_trace w dept arr dateStr url
                   @ map (\<lambda>k. Console ERROR
                                 (ErrorProcessingFlight k (projl (extractRow w dept arr dateStr k))))
                       (failed_rows w dept arr dateStr count)
                   @ [Console LOG (Flights flights)])
                @ [BrowserClose])))"
  using assms(3) by (simp add: pageScrape_navigated_any [OF assms(1,2)] Let_def)

lemma fst_catch_fatal: "fst (catch_fatal w e tr) \<noteq> Returned (Some flights)"
  by (simp add: catch_fatal_def Let_def split: option.split)


subsection \<open>One row\<close>





subsection \<open>The fixture page\<close>

lemmas extract_defs =
  extract_flightNums_def extract_numStops_def extract_planeChange_def extract_time_def
  extract_duration_def extract_price_def extract_seatsLeft_def first_def
  evaluate_textContent_def

lemmas fixture_page_defs =
  fixture_xpath_def fixture_textContent_def fixture_texts_def

lemma fixture_navigated: "navigated fixture fixture_url"
  by (simp add: navigated_def fixture_def)

lemma fixture_row_count: "row_count fixture = Inr 2"
  by (simp add: fixture_def)

lemma fixture_close: "browser_close fixture k = None"
  by (simp add: fixture_def)

lemma fixture_row1: "extractRow fixture ''DAL'' ''HOU'' ''2025-02-01'' 1 = Inr fixture_flight1"
  unfolding extractRow_def fares_loop_unfold
  by (simp add: extract_defs fixture_def fixture_page_defs fixture_flight1_def)

lemma fixture_row2: "extractRow fixture ''DAL'' ''HOU'' ''2025-02-01'' 2 = Inr fixture_flight2"
  unfolding extractRow_def fares_loop_unfold
  by (simp add: extract_defs fixture_def fixture_page_defs fixture_flight2_def)

lemma upt_1_3: "[1..<Suc 2] = [1, 2]"
  by (simp add: upt_rec)

lemma fixture_rows:
  "extracted_rows fixture ''DAL'' ''HOU'' ''2025-02-01'' 2 = [1, 2]"
  "failed_rows fixture ''DAL'' ''HOU'' ''2025-02-01'' 2 = []"
  unfolding extracted_rows_def failed_rows_def upt_1_3
  using fixture_row1 fixture_row2 by simp_all

lemma fixture_run:
  "pageScrape fixture ''DAL'' ''HOU'' ''2025-02-01'' fixture_url =
     (Returned (Some [fixture_flight1, fixture_flight2]),
      [Console LOG (Starting ''DAL'' ''HOU'' ''2025-02-01''), Goto fixture_url 90000,
       ScrollBy 0 450, WaitForTimeout 3000, CountRows,
       Console LOG (Flights [fixture_flight1, fixture_flight2]),
       Insert fixture_flight1, Console ERROR (SupabaseInsertError ''timeout''),
       Insert fixture_flight2, Console LOG (InsertedFlightData JNull),
       BrowserClose])"
proof -
  have nav: "nav_trace fixture ''DAL'' ''HOU'' ''2025-02-01'' fixture_url =
      [Console LOG (Starting ''DAL'' ''HOU'' ''2025-02-01''), Goto fixture_url 90000,
       ScrollBy 0 450, WaitForTimeout 3000, CountRows]"
    by (simp add: nav_trace_def redirect_check_def fixture_def)
  have ins: "db_insert fixture 0 f = \<lparr>data = JNull, error = Some ''timeout''\<rparr>"
    "db_insert fixture (Suc 0) f = \<lparr>data = JNull, error = None\<rparr>" for f
    by (simp_all add: fixture_def)
  show ?thesis
    using fixture_row1 fixture_row2
    by (simp add: pageScrape_navigated [OF fixture_navigated fixture_row_count fixture_close] fixture_rows
        nav ins insert_line_def Let_def)
qed

subsection \<open>Further facts about the invocation and the fixture pages\<close>

lemma no_error_redirect_check:
  "Console ERROR m \<in> set (redirect_check w url tr) \<longleftrightarrow> Console ERROR m \<in> set tr"
  by (auto simp: redirect_check_def Let_def split: sum.splits option.splits)

lemma fixture_empty_navigated: "navigated fixture_empty fixture_url"
  by (simp add: navigated_def fixture_empty_def fixture_def)

lemma fixture_empty_row_count: "row_count fixture_empty = Inr 0"
  by (simp add: fixture_empty_def)

lemma fixture_empty_close: "browser_close fixture_empty k = None"
  by (simp add: fixture_empty_def fixture_def)

lemma fixture_empty_nav_trace:
  "nav_trace fixture_empty dept arr dateStr fixture_url =
     [Console LOG (Starting dept arr dateStr), Goto fixture_url 90000,
      ScrollBy 0 450, WaitForTimeout 3000, CountRows]"
  by (simp add: nav_trace_def redirect_check_def fixture_empty_def fixture_def)

lemma fixture_load_timeout_run:
  "pageScrape fixture_load_timeout ''DAL'' ''HOU'' ''2025-02-01'' fixture_url =
        (Returned None,
         [Console LOG (Starting ''DAL'' ''HOU'' ''2025-02-01''), Goto fixture_url 90000,
          Console ERROR (FatalScraperError TimeoutError), BrowserClose])"
  by (simp add: pageScrape_def scrape_try_def catch_fatal_def fixture_load_timeout_def
      fixture_def)

lemma fixture_empty_run:
  "pageScrape fixture_empty ''DAL'' ''HOU'' ''2025-02-01'' fixture_url =
       (Returned None,
        [Console LOG (Starting ''DAL'' ''HOU'' ''2025-02-01''), Goto fixture_url 90000,
         ScrollBy 0 450, WaitForTimeout 3000, CountRows,
         Console WARN NoFlightData, BrowserClose])"
  by (simp add: pageScrape_navigated [OF fixture_empty_navigated fixture_empty_row_count fixture_empty_close]
      fixture_empty_nav_trace)






lemma length_extracted_rows:
  "length (extracted_rows w dept arr dateStr count)
     = count - length (failed_rows w dept arr dateStr count)"
proof -
  have "length (extracted_rows w dept arr dateStr count)
          + length (failed_rows w dept arr dateStr count) = length [1..<Suc count]"
    unfolding extracted_rows_def failed_rows_def
    by (simp only: add.commute [of "length (filter (\<lambda>k. \<not> isl (extractRow w dept arr dateStr k)) [1..<Suc count])"]
        sum_length_filter_compl)
  then show ?thesis by (simp del: upt_Suc)
qed

lemma fixture_row1_throws_navigated: "navigated fixture_row1_throws fixture_url"
  by (simp add: navigated_def fixture_row1_throws_def fixture_def)

lemma fixture_row1_throws_row_count: "row_count fixture_row1_throws = Inr 2"
  by (simp add: fixture_row1_throws_def fixture_def)

lemma fixture_row1_throws_close: "browser_close fixture_row1_throws k = None"
  by (simp add: fixture_row1_throws_def fixture_def)

lemma fixture_row1_throws_row1:
  "extractRow fixture_row1_throws ''DAL'' ''HOU'' ''2025-02-01'' 1 = Inl (Error ''detached'')"
  unfolding extractRow_def
  by (simp add: extract_flightNums_def first_def evaluate_textContent_def
      fixture_row1_throws_def fixture_def fixture_page_defs)

lemma fixture_row1_throws_row2:
  "extractRow fixture_row1_throws ''DAL'' ''HOU'' ''2025-02-01'' 2 = Inr fixture_flight2"
  unfolding extractRow_def fares_loop_unfold
  by (simp add: extract_defs fixture_row1_throws_def fixture_def fixture_page_defs
      fixture_flight2_def)

lemma fixture_row1_throws_rows:
  "extracted_rows fixture_row1_throws ''DAL'' ''HOU'' ''2025-02-01'' 2 = [2]"
  "failed_rows fixture_row1_throws ''DAL'' ''HOU'' ''2025-02-01'' 2 = [1]"
  unfolding extracted_rows_def failed_rows_def upt_1_3
  using fixture_row1_throws_row1 fixture_row1_throws_row2 by simp_all

lemma evaluate_textContent_db_insert [simp]:
  "evaluate_textContent (w\<lparr>db_insert := d\<rparr>) x = evaluate_textContent w x"
  by (cases x) (simp_all add: evaluate_textContent_def)

lemma extractRow_db_insert [simp]:
  "extractRow (w\<lparr>db_insert := d\<rparr>) dept arr dateStr i = extractRow w dept arr dateStr i"
  unfolding extractRow_def fares_loop_unfold
  by (simp add: extract_flightNums_def extract_numStops_def extract_planeChange_def
      extract_time_def extract_duration_def extract_price_def extract_seatsLeft_def
      cong: if_cong)

lemma navigated_db_insert [simp]: "navigated (w\<lparr>db_insert := d\<rparr>) url = navigated w url"
  by (simp add: navigated_def)

lemma extracted_rows_db_insert [simp]:
  "extracted_rows (w\<lparr>db_insert := d\<rparr>) dept arr dateStr count
     = extracted_rows w dept arr dateStr count"
  by (simp add: extracted_rows_def)


lemma inserts_of_nav_trace: "inserts_of (nav_trace w dept arr dateStr url) = []"
  by (simp add: nav_trace_def inserts_of_redirect_check)

lemma guarded_miss_defaults:
  "xpath w (FlightNumSel i) = Inr [] \<Longrightarrow> extract_flightNums w i = Inr (JArr [])"
  "xpath w (NumStopsSel i) = Inr [] \<Longrightarrow> extract_numStops w i = Inr (JStr ''Nonstop'')"
  "xpath w (PlaneChangeSel i) = Inr [] \<Longrightarrow> extract_planeChange w i = Inr JNull"
  by (simp_all add: extract_flightNums_def extract_numStops_def extract_planeChange_def)

lemma extract_time_miss:
  assumes "xpath w timeSel = Inr [] \<or> xpath w amPmSel = Inr []"
  shows "isl (extract_time w timeSel amPmSel)"
  using assms
  by (auto simp: extract_time_def and_then_def first_def evaluate_textContent_def
      split: sum.splits list.splits)

lemma time_miss_throws:
  assumes "xpath w (DeptTimeSel i) = Inr [] \<or> xpath w (DeptTimeAmPmSel i) = Inr []
         \<or> xpath w (ArrTimeSel i) = Inr [] \<or> xpath w (ArrTimeAmPmSel i) = Inr []"
  shows "isl (extractRow w dept arr dateStr i)"
proof -
  from assms have "isl (extract_time w (DeptTimeSel i) (DeptTimeAmPmSel i))
                 \<or> isl (extract_time w (ArrTimeSel i) (ArrTimeAmPmSel i))"
    using extract_time_miss by blast
  then show ?thesis
    by (auto simp: extractRow_def and_then_def split: sum.splits)
qed

lemma fixture_no_deptTime2_navigated: "navigated fixture_no_deptTime2 fixture_url"
  by (simp add: navigated_def fixture_no_deptTime2_def fixture_def)

lemma fixture_no_deptTime2_row_count: "row_count fixture_no_deptTime2 = Inr 2"
  by (simp add: fixture_no_deptTime2_def fixture_def)

lemma fixture_no_deptTime2_close: "browser_close fixture_no_deptTime2 k = None"
  by (simp add: fixture_no_deptTime2_def fixture_def)

lemma fixture_no_deptTime2_row1:
  "extractRow fixture_no_deptTime2 ''DAL'' ''HOU'' ''2025-02-01'' 1 = Inr fixture_flight1"
  unfolding extractRow_def fares_loop_unfold
  by (simp add: extract_defs fixture_no_deptTime2_def fixture_def fixture_page_defs
      fixture_flight1_def)

lemma fixture_no_deptTime2_row2:
  "extractRow fixture_no_deptTime2 ''DAL'' ''HOU'' ''2025-02-01'' 2 = Inl TypeError"
  unfolding extractRow_def
  by (simp add: extract_defs fixture_no_deptTime2_def fixture_def fixture_page_defs)

lemma fixture_no_deptTime2_rows:
  "extracted_rows fixture_no_deptTime2 ''DAL'' ''HOU'' ''2025-02-01'' 2 = [1]"
  "failed_rows fixture_no_deptTime2 ''DAL'' ''HOU'' ''2025-02-01'' 2 = [2]"
  unfolding extracted_rows_def failed_rows_def upt_1_3
  using fixture_no_deptTime2_row1 fixture_no_deptTime2_row2 by simp_all

lemma no_click_insert_line: "\<not> is_click (insert_line res)"
  by (simp add: insert_line_def split: option.split)

lemma no_click_persist_lines:
  "filter is_click (concat (map (\<lambda>(m, flight). [Insert flight, insert_line (db_insert w m flight)]) zs)) = []"
  by (induction zs) (auto simp: no_click_insert_line)

lemma no_click_row_errors: "filter is_click (map (\<lambda>k. Console l (f k)) ks) = []"
  by (induction ks) simp_all

lemma evaluate_textContent_page_url [simp]:
  "evaluate_textContent (w\<lparr>page_url := u\<rparr>) x = evaluate_textContent w x"
  by (cases x) (simp_all add: evaluate_textContent_def)

lemma extractRow_page_url [simp]:
  "extractRow (w\<lparr>page_url := u\<rparr>) dept arr dateStr i = extractRow w dept arr dateStr i"
  unfolding extractRow_def fares_loop_unfold
  by (simp add: extract_flightNums_def extract_numStops_def extract_planeChange_def
      extract_time_def extract_duration_def extract_price_def extract_seatsLeft_def
      cong: if_cong)

lemma extracted_rows_page_url [simp]:
  "extracted_rows (w\<lparr>page_url := u\<rparr>) dept arr dateStr count
     = extracted_rows w dept arr dateStr count"
  by (simp add: extracted_rows_def)

lemma redirect_check_same: "redirect_check (w\<lparr>page_url := url\<rparr>) url tr = tr"
  by (simp add: redirect_check_def)

lemma redirect_check_append:
  "redirect_check w url (tr @ tr') = tr @ redirect_check w url tr'"
  by (simp add: redirect_check_def Let_def split: sum.split option.split)

lemma failed_rows_page_url [simp]:
  "failed_rows (w\<lparr>page_url := u\<rparr>) dept arr dateStr count
     = failed_rows w dept arr dateStr count"
  by (simp add: failed_rows_def)

lemma persist_append: "persist w k flights (tr @ tr') = tr @ persist w k flights tr'"
  by (simp add: persist_eq)

lemma persist_page_url [simp]:
  "persist (w\<lparr>page_url := u\<rparr>) k flights tr = persist w k flights tr"
  by (simp add: persist_eq)

lemma catch_fatal_append:
  assumes "closes_of tr = 0"
  shows "catch_fatal w e (tr @ tr') =
           (fst (catch_fatal w e tr'), tr @ snd (catch_fatal w e tr'))"
  using assms by (simp add: catch_fatal_def Let_def split: option.split)

lemma catch_fatal_page_url [simp]:
  "catch_fatal (w\<lparr>page_url := u\<rparr>) e tr = catch_fatal w e tr"
  by (simp add: catch_fatal_def)

lemma no_click_catch_fatal:
  "filter is_click (snd (catch_fatal w e tr)) = filter is_click tr"
  by (simp add: catch_fatal_def Let_def split: option.split)

lemma no_click_persist: "filter is_click (persist w k flights tr) = filter is_click tr"
  by (simp add: persist_eq no_click_persist_lines)

text \<open>
  An invocation whose load completes, from the scroll on: \<open>tr\<close> is the trace up to and
  including the redirect check.
\<close>

lemma pageScrape_loaded:
  assumes "launch w = None" and "newPage w = None" and "createCursor w = None"
    and "installMouseHelper w = None" and "goto w url = None"
  shows "pageScrape w dept arr dateStr url =
     (let tr = redirect_check w url [Console LOG (Starting dept arr dateStr), Goto url 90000]
      in case scrollBy w of
           Some e \<Rightarrow> catch_fatal w e (tr @ [ScrollBy 0 450])
         | None \<Rightarrow>
            (case row_count w of
               Inl e \<Rightarrow> catch_fatal w e (tr @ [ScrollBy 0 450, WaitForTimeout 3000, CountRows])
             | Inr count \<Rightarrow>
                 (let flights = map (\<lambda>k. projr (extractRow w dept arr dateStr k))
                                    (extracted_rows w dept arr dateStr count);
                      r = (if count = 0 then None else Some flights);
                      tr' = tr @ [ScrollBy 0 450, WaitForTimeout 3000, CountRows]
                            @ (if count = 0
                               then [Console WARN NoFlightData]
                               else persist w 0 flights
                                      (map (\<lambda>k. Console ERROR
                                              (ErrorProcessingFlight k
                                                (projl (extractRow w dept arr dateStr k))))
                                         (failed_rows w dept arr dateStr count)
                                       @ [Console LOG (Flights flights)]))
                  in case browser_close w 0 of
                       None \<Rightarrow> (Returned r, tr' @ [BrowserClose])
                     | Some e \<Rightarrow> catch_fatal w e (tr' @ [BrowserClose]))))"
proof (cases "scrollBy w")
  case (Some e)
  with assms show ?thesis
    by (simp add: pageScrape_def scrape_try_def)
next
  case None
  show ?thesis
  proof (cases "row_count w")
    case (Inl e)
    with assms None show ?thesis
      by (simp add: pageScrape_def scrape_try_def)
  next
    case (Inr count)
    from assms None have nav: "navigated w url"
      by (simp add: navigated_def)
    show ?thesis
      unfolding pageScrape_navigated_any [OF nav Inr]
      by (simp add: None Inr Let_def nav_trace_def persist_eq split: option.split)
  qed
qed

lemma pageScrape_redirect_tail:
  assumes "launch w = None" and "newPage w = None" and "createCursor w = None"
    and "installMouseHelper w = None" and "goto w url = None"
  shows "pageScrape w dept arr dateStr url =
           (fst (pageScrape (w\<lparr>page_url := url\<rparr>) dept arr dateStr url),
            redirect_check w url [Console LOG (Starting dept arr dateStr), Goto url 90000]
              @ drop 2 (snd (pageScrape (w\<lparr>page_url := url\<rparr>) dept arr dateStr url)))"
proof -
  let ?w = "w\<lparr>page_url := url\<rparr>"
  let ?A = "redirect_check w url [Console LOG (Starting dept arr dateStr), Goto url 90000]"
  let ?B = "[Console LOG (Starting dept arr dateStr), Goto url 90000]"
  have w': "launch ?w = None" "newPage ?w = None" "createCursor ?w = None"
    "installMouseHelper ?w = None" "goto ?w url = None"
    using assms by simp_all
  have A: "closes_of ?A = 0" and B: "closes_of ?B = 0"
    by (simp_all add: closes_of_redirect_check)
  have cf: "catch_fatal w e (?A @ X) = (fst (catch_fatal w e (?B @ X)),
              ?A @ drop 2 (snd (catch_fatal w e (?B @ X))))" for e X
    unfolding catch_fatal_append [OF A] catch_fatal_append [OF B] by simp
  show ?thesis
  proof (cases "scrollBy w")
    case (Some e)
    then show ?thesis
      unfolding pageScrape_loaded [OF assms] pageScrape_loaded [OF w']
      using cf [of e "[ScrollBy 0 450]"]
      by (simp add: redirect_check_same)
  next
    case None
    show ?thesis
    proof (cases "row_count w")
      case (Inl e)
      with None show ?thesis
        unfolding pageScrape_loaded [OF assms] pageScrape_loaded [OF w']
        using cf [of e "[ScrollBy 0 450, WaitForTimeout 3000, CountRows]"]
        by (simp add: redirect_check_same)
    next
      case (Inr count)
      show ?thesis
      proof (cases "browser_close w 0")
        case close: None
        with None Inr show ?thesis
          unfolding pageScrape_loaded [OF assms] pageScrape_loaded [OF w']
          by (simp add: redirect_check_same Let_def)
      next
        case close: (Some e)
        with None Inr show ?thesis
          unfolding pageScrape_loaded [OF assms] pageScrape_loaded [OF w']
          using cf [of e "[ScrollBy 0 450, WaitForTimeout 3000, CountRows]
                    @ (if count = 0
                       then [Console WARN NoFlightData]
                       else persist w 0 (map (\<lambda>k. projr (extractRow w dept arr dateStr k))
                                    (extracted_rows w dept arr dateStr count))
                              (map (\<lambda>k. Console ERROR
                                      (ErrorProcessingFlight k
                                        (projl (extractRow w dept arr dateStr k))))
                                 (failed_rows w dept arr dateStr count)
                               @ [Console LOG (Flights (map (\<lambda>k. projr (extractRow w dept arr dateStr k))
                                    (extracted_rows w dept arr dateStr count)))]))
                    @ [BrowserClose]"]
          by (simp add: redirect_check_same Let_def)
      qed
    qed
  qed
qed

lemma pageScrape_after_goto:
  assumes "launch w = None" and "newPage w = None" and "createCursor w = None"
    and "installMouseHelper w = None" and "goto w url = None"
  shows "\<exists>rest. snd (pageScrape w dept arr dateStr url) =
           redirect_check w url [Console LOG (Starting dept arr dateStr), Goto url 90000]
             @ ScrollBy 0 450 # rest
         \<and> filter is_click rest = []"
proof -
  let ?A = "redirect_check w url [Console LOG (Starting dept arr dateStr), Goto url 90000]"
  have A: "closes_of ?A = 0"
    by (simp add: closes_of_redirect_check)
  have cf: "\<exists>rest. snd (catch_fatal w e (?A @ ScrollBy 0 450 # X)) = ?A @ ScrollBy 0 450 # rest
              \<and> filter is_click rest = []" if "filter is_click X = []" for e X
    using that unfolding catch_fatal_append [OF A]
    by (simp add: catch_fatal_def Let_def split: option.split)
  show ?thesis
  proof (cases "scrollBy w")
    case (Some e)
    with cf [of "[]" e] show ?thesis
      unfolding pageScrape_loaded [OF assms] by simp
  next
    case None
    show ?thesis
    proof (cases "row_count w")
      case (Inl e)
      with None cf [of "[WaitForTimeout 3000, CountRows]" e] show ?thesis
        unfolding pageScrape_loaded [OF assms] by simp
    next
      case (Inr count)
      let ?X = "[WaitForTimeout 3000, CountRows]
                    @ (if count = 0
                       then [Console WARN NoFlightData]
                       else persist w 0 (map (\<lambda>k. projr (extractRow w dept arr dateStr k))
                                    (extracted_rows w dept arr dateStr count))
                              (map (\<lambda>k. Console ERROR
                                      (ErrorProcessingFlight k
                                        (projl (extractRow w dept arr dateStr k))))
                                 (failed_rows w dept arr dateStr count)
                               @ [Console LOG (Flights (map (\<lambda>k. projr (extractRow w dept arr dateStr k))
                                    (extracted_rows w dept arr dateStr count)))]))
                    @ [BrowserClose]"
      have X: "filter is_click ?X = []"
        by (simp add: no_click_persist no_click_row_errors)
      show ?thesis
      proof (cases "browser_close w 0")
        case close: None
        with None Inr X show ?thesis
          unfolding pageScrape_loaded [OF assms] by (simp add: Let_def)
      next
        case close: (Some e)
        with None Inr cf [OF X, of e] show ?thesis
          unfolding pageScrape_loaded [OF assms] by (simp add: Let_def)
      qed
    qed
  qed
qed

lemma fixture_redirect_fields:
  "launch fixture_redirect = None" "newPage fixture_redirect = None"
  "createCursor fixture_redirect = None" "installMouseHelper fixture_redirect = None"
  "goto fixture_redirect fixture_url = None"
  "page_url fixture_redirect \<noteq> fixture_url"
  "waitForXPath_submit fixture_redirect 5000 = Inr 42"
  "cursor_click fixture_redirect 42 = None"
  by (simp_all add: fixture_redirect_def fixture_def fixture_url_def search_form_url_def)

lemma fixture_redirect_no_button_fields:
  "launch fixture_redirect_no_button = None" "newPage fixture_redirect_no_button = None"
  "createCursor fixture_redirect_no_button = None"
  "installMouseHelper fixture_redirect_no_button = None"
  "goto fixture_redirect_no_button fixture_url = None"
  "page_url fixture_redirect_no_button \<noteq> fixture_url"
  "waitForXPath_submit fixture_redirect_no_button 5000 = Inl TimeoutError"
  by (simp_all add: fixture_redirect_no_button_def fixture_def fixture_url_def
      search_form_url_def)

lemma fixture_fields:
  "launch fixture = None" "newPage fixture = None"
  "createCursor fixture = None" "installMouseHelper fixture = None"
  "goto fixture fixture_url = None"
  "page_url fixture = fixture_url"
  by (simp_all add: fixture_def)

lemma inserts_of_catch_fatal: "inserts_of (snd (catch_fatal w e tr)) = inserts_of tr"
  by (simp add: catch_fatal_def Let_def split: option.split)

lemma snd_catch_fatal:
  "snd (catch_fatal w e tr) = tr @ [Console ERROR (FatalScraperError e), BrowserClose]"
  by (simp add: catch_fatal_def Let_def split: option.split)

lemma pageScrape_zero_rows:
  assumes "navigated w url" and "row_count w = Inr 0"
  shows "inserts_of (snd (pageScrape w dept arr dateStr url)) = []"
    and "fst (pageScrape w dept arr dateStr url) \<noteq> Returned (Some flights)"
  unfolding pageScrape_navigated_any [OF assms]
  by (simp_all add: Let_def inserts_of_catch_fatal inserts_of_nav_trace fst_catch_fatal
      split: option.split)

lemma catch_fatal_first:
  assumes "closes_of tr = 0"
  shows "catch_fatal w e tr =
           (case browser_close w 0 of None \<Rightarrow> Returned None | Some e' \<Rightarrow> Rejected e',
            tr @ [Console ERROR (FatalScraperError e), BrowserClose])"
  using assms by (simp add: catch_fatal_def Let_def split: option.split)

lemma catch_fatal_second:
  assumes "closes_of tr = 0"
  shows "catch_fatal w e (tr @ [BrowserClose]) =
           (case browser_close w 1 of None \<Rightarrow> Returned None | Some e' \<Rightarrow> Rejected e',
            tr @ [BrowserClose, Console ERROR (FatalScraperError e), BrowserClose])"
  using assms by (simp add: catch_fatal_def Let_def split: option.split)

text \<open>
  The close calls of an invocation whose browser has started. Either the first close call
  is the last event, or it throws inside the \<^verbatim>\<open>try\<close> and the \<^verbatim>\<open>catch\<close> issues a second one.
\<close>

lemma pageScrape_close_calls:
  assumes "launch w = None"
  shows "(\<exists>tr. closes_of tr = 0
            \<and> snd (pageScrape w dept arr dateStr url) = tr @ [BrowserClose]
            \<and> (case browser_close w 0 of
                  None \<Rightarrow> \<exists>r. fst (pageScrape w dept arr dateStr url) = Returned r
                | Some e \<Rightarrow> fst (pageScrape w dept arr dateStr url) = Rejected e))
       \<or> (\<exists>tr e. closes_of tr = 0 \<and> browser_close w 0 = Some e
            \<and> snd (pageScrape w dept arr dateStr url) =
                 tr @ [BrowserClose, Console ERROR (FatalScraperError e), BrowserClose]
            \<and> fst (pageScrape w dept arr dateStr url) =
                 (case browser_close w 1 of None \<Rightarrow> Returned None | Some e' \<Rightarrow> Rejected e'))"
    (is "?one \<or> ?two")
proof -
  have fatal: ?one
    if "pageScrape w dept arr dateStr url = catch_fatal w e tr" "closes_of tr = 0" for e tr
    unfolding that(1) catch_fatal_first [OF that(2)]
    by (rule exI [of _ "tr @ [Console ERROR (FatalScraperError e)]"])
       (simp add: that(2) split: option.split)
  have closed: ?one
    if "pageScrape w dept arr dateStr url = (Returned r, tr @ [BrowserClose])"
      "browser_close w 0 = None" "closes_of tr = 0" for r tr
    unfolding that(1) that(2)
    by (rule exI [of _ tr]) (simp add: that(3))
  have twice: ?two
    if "pageScrape w dept arr dateStr url = catch_fatal w e (tr @ [BrowserClose])"
      "browser_close w 0 = Some e" "closes_of tr = 0" for e tr
    unfolding that(1) that(2)
    by (rule exI [of _ tr], rule exI [of _ e])
       (simp add: that(3) catch_fatal_second [OF that(3)])
  show ?thesis
  proof (cases "newPage w = None \<and> createCursor w = None \<and> installMouseHelper w = None")
    case False
    have "\<exists>e. pageScrape w dept arr dateStr url =
         catch_fatal w e [Console LOG (Starting dept arr dateStr)]"
    proof (cases "newPage w")
      case (Some e)
      with assms show ?thesis
        by (simp add: pageScrape_def scrape_try_def) blast
    next
      case page: None
      show ?thesis
      proof (cases "createCursor w")
        case (Some e)
        with assms page show ?thesis
          by (simp add: pageScrape_def scrape_try_def) blast
      next
        case cursor: None
        with False page obtain e where "installMouseHelper w = Some e"
          by auto
        with assms page cursor show ?thesis
          by (simp add: pageScrape_def scrape_try_def) blast
      qed
    qed
    then obtain e where
      "pageScrape w dept arr dateStr url =
         catch_fatal w e [Console LOG (Starting dept arr dateStr)]" ..
    from fatal [OF this] show ?thesis by simp
  next
    case ready: True
    show ?thesis
    proof (cases "goto w url")
      case (Some e)
      with ready assms have
        "pageScrape w dept arr dateStr url =
           catch_fatal w e [Console LOG (Starting dept arr dateStr), Goto url 90000]"
        by (simp add: pageScrape_def scrape_try_def)
      from fatal [OF this] show ?thesis by simp
    next
      case None
      note loaded = pageScrape_loaded [of w url dept arr dateStr, OF assms _ _ _ None]
      let ?A = "redirect_check w url [Console LOG (Starting dept arr dateStr), Goto url 90000]"
      have A: "closes_of ?A = 0"
        by (simp add: closes_of_redirect_check)
      show ?thesis
      proof (cases "scrollBy w")
        case (Some e)
        with ready loaded have
          "pageScrape w dept arr dateStr url = catch_fatal w e (?A @ [ScrollBy 0 450])"
          by simp
        from fatal [OF this] A show ?thesis by simp
      next
        case scrolled: None
        show ?thesis
        proof (cases "row_count w")
          case (Inl e)
          with ready loaded scrolled have
            "pageScrape w dept arr dateStr url =
               catch_fatal w e (?A @ [ScrollBy 0 450, WaitForTimeout 3000, CountRows])"
            by simp
          from fatal [OF this] A show ?thesis by simp
        next
          case (Inr count)
          let ?flights = "map (\<lambda>k. projr (extractRow w dept arr dateStr k))
                            (extracted_rows w dept arr dateStr count)"
          let ?tr = "?A @ [ScrollBy 0 450, WaitForTimeout 3000, CountRows]
                      @ (if count = 0
                         then [Console WARN NoFlightData]
                         else persist w 0 ?flights
                                (map (\<lambda>k. Console ERROR
                                        (ErrorProcessingFlight k
                                          (projl (extractRow w dept arr dateStr k))))
                                   (failed_rows w dept arr dateStr count)
                                 @ [Console LOG (Flights ?flights)]))"
          have tr: "closes_of ?tr = 0"
            by (simp add: A closes_of_persist closes_of_map_Console)
          show ?thesis
          proof (cases "browser_close w 0")
            case None
            with ready loaded scrolled Inr have
              "pageScrape w dept arr dateStr url =
                 (Returned (if count = 0 then None else Some ?flights), ?tr @ [BrowserClose])"
              by (simp add: Let_def)
            from closed [OF this None tr] show ?thesis ..
          next
            case (Some e)
            with ready loaded scrolled Inr have
              "pageScrape w dept arr dateStr url = catch_fatal w e (?tr @ [BrowserClose])"
              by (simp add: Let_def)
            from twice [OF this Some tr] show ?thesis ..
          qed
        qed
      qed
    qed
  qed
qed

lemma fixture_close_throws_once_run:
  "pageScrape fixture_close_throws_once ''DAL'' ''HOU'' ''2025-02-01'' fixture_url =
     (Returned None,
      [Console LOG (Starting ''DAL'' ''HOU'' ''2025-02-01''), Goto fixture_url 90000,
       ScrollBy 0 450, WaitForTimeout 3000, CountRows, Console WARN NoFlightData,
       BrowserClose, Console ERROR (FatalScraperError (Error ''close failed'')),
       BrowserClose])"
proof -
  have nav: "navigated fixture_close_throws_once fixture_url"
    and rc: "row_count fixture_close_throws_once = Inr 0"
    by (simp_all add: navigated_def fixture_close_throws_once_def fixture_empty_def fixture_def)
  have tr: "nav_trace fixture_close_throws_once ''DAL'' ''HOU'' ''2025-02-01'' fixture_url =
     [Console LOG (Starting ''DAL'' ''HOU'' ''2025-02-01''), Goto fixture_url 90000,
      ScrollBy 0 450, WaitForTimeout 3000, CountRows]"
    by (simp add: nav_trace_def redirect_check_def fixture_close_throws_once_def
        fixture_empty_def fixture_def)
  have close: "browser_close fixture_close_throws_once 0 = Some (Error ''close failed'')"
    "browser_close fixture_close_throws_once (Suc 0) = None"
    by (simp_all add: fixture_close_throws_once_def)
  show ?thesis
    unfolding pageScrape_navigated_any [OF nav rc]
    by (simp add: tr close catch_fatal_def Let_def)
qed

lemma fixture_close_throws_run:
  "pageScrape fixture_close_throws ''DAL'' ''HOU'' ''2025-02-01'' fixture_url =
     (Rejected (Error ''close failed''),
      [Console LOG (Starting ''DAL'' ''HOU'' ''2025-02-01''), Goto fixture_url 90000,
       Console ERROR (FatalScraperError TimeoutError), BrowserClose])"
  by (simp add: pageScrape_def scrape_try_def catch_fatal_def fixture_close_throws_def
      fixture_load_timeout_def fixture_def)

lemma pageScrape_counts_rows:
  assumes "launch w = None" and "newPage w = None" and "createCursor w = None"
    and "installMouseHelper w = None" and "goto w url = None" and "scrollBy w = None"
  shows "CountRows \<in> set (snd (pageScrape w dept arr dateStr url))"
proof (cases "row_count w")
  case (Inl e)
  with assms(6) show ?thesis
    unfolding pageScrape_loaded [OF assms(1-5)]
    by (simp add: snd_catch_fatal)
next
  case (Inr count)
  with assms(6) show ?thesis
    unfolding pageScrape_loaded [OF assms(1-5)]
    by (cases "browser_close w 0") (simp_all add: Let_def snd_catch_fatal)
qed

lemma fixture_redirect_no_button_rows:
  "scrollBy fixture_redirect_no_button = None"
  "row_count fixture_redirect_no_button = Inr 2"
  "browser_close fixture_redirect_no_button 0 = None"
  by (simp_all add: fixture_redirect_no_button_def fixture_def)

lemma fixture_redirect_no_button_records:
  "map (\<lambda>k. projr (extractRow fixture_redirect_no_button ''DAL'' ''HOU'' ''2025-02-01'' k))
     (extracted_rows fixture_redirect_no_button ''DAL'' ''HOU'' ''2025-02-01'' 2)
   = [fixture_flight1, fixture_flight2]"
  unfolding fixture_redirect_no_button_def
  using fixture_row1 fixture_row2 by (simp add: fixture_rows)

section \<open>The claims\<close>



text \<open>
  Claim C2, at a page where it fails. On the fixture page without the departure-time
  text of row 2, the query of lines 191 to 193 matches nothing, the read of line 197
  throws a TypeError, and the row is logged and skipped: the invocation returns the
  record of row 1 alone. The claim says the row completes with a default for the field.
  (For the flight numbers, the stops and the plane change a query with no match does
  give the default, and the row goes on.)
\<close>

theorem deptTime_miss_skips_row:
  "xpath fixture_no_deptTime2 (DeptTimeSel 2) = Inr []
   \<and> extractRow fixture_no_deptTime2 ''DAL'' ''HOU'' ''2025-02-01'' 2 = Inl TypeError
   \<and> pageScrape fixture_no_deptTime2 ''DAL'' ''HOU'' ''2025-02-01'' fixture_url =
       (Returned (Some [fixture_flight1]),
        [Console LOG (Starting ''DAL'' ''HOU'' ''2025-02-01''), Goto fixture_url 90000,
         ScrollBy 0 450, WaitForTimeout 3000, CountRows,
         Console ERROR (ErrorProcessingFlight 2 TypeError),
         Console LOG (Flights [fixture_flight1]),
         Insert fixture_flight1, Console ERROR (SupabaseInsertError ''timeout''),
         BrowserClose])"
proof -
  have nav: "nav_trace fixture_no_deptTime2 ''DAL'' ''HOU'' ''2025-02-01'' fixture_url =
      [Console LOG (Starting ''DAL'' ''HOU'' ''2025-02-01''), Goto fixture_url 90000,
       ScrollBy 0 450, WaitForTimeout 3000, CountRows]"
    by (simp add: nav_trace_def redirect_check_def fixture_no_deptTime2_def fixture_def)
  have ins: "db_insert fixture_no_deptTime2 0 f = \<lparr>data = JNull, error = Some ''timeout''\<rparr>" for f
    by (simp add: fixture_no_deptTime2_def fixture_def)
  have miss: "xpath fixture_no_deptTime2 (DeptTimeSel 2) = Inr []"
    by (simp add: fixture_no_deptTime2_def)
  from miss fixture_no_deptTime2_row1 fixture_no_deptTime2_row2 show ?thesis
    by (simp add: pageScrape_navigated
          [OF fixture_no_deptTime2_navigated fixture_no_deptTime2_row_count
              fixture_no_deptTime2_close]
        fixture_no_deptTime2_rows nav ins insert_line_def Let_def)
qed

text \<open>
  Claim C3, as amended. When the invocation gets as far as the row count and the count
  is 0, no insert call is made and no array is returned, whatever the closing of the
  browser does; and when the close call completes, \<^verbatim>\<open>pageScrape\<close> returns \<^verbatim>\<open>null\<close>, after
  a warning and the closing of the browser, and no error line is printed. The claim as
  stated says the invocation produces an empty record sequence; the third theorem below
  shows, on the fixture page without rows, that the value returned is not the empty
  array.
\<close>

theorem zero_rows_returns_null:
  assumes "navigated w url" and "row_count w = Inr 0"
  shows "(browser_close w 0 = None \<longrightarrow>
            pageScrape w dept arr dateStr url =
              (Returned None,
               nav_trace w dept arr dateStr url @ [Console WARN NoFlightData, BrowserClose])
            \<and> (\<forall>m. Console ERROR m \<notin> set (snd (pageScrape w dept arr dateStr url))))
    \<and> inserts_of (snd (pageScrape w dept arr dateStr url)) = []
    \<and> (\<forall>flights. fst (pageScrape w dept arr dateStr url) \<noteq> Returned (Some flights))"
proof -
  have "pageScrape w dept arr dateStr url =
              (Returned None,
               nav_trace w dept arr dateStr url @ [Console WARN NoFlightData, BrowserClose])
            \<and> (\<forall>m. Console ERROR m \<notin> set (snd (pageScrape w dept arr dateStr url)))"
    if "browser_close w 0 = None"
    by (simp add: pageScrape_navigated [OF assms that] nav_trace_def no_error_redirect_check)
  with pageScrape_zero_rows [OF assms] show ?thesis
    by blast
qed

theorem zero_rows_returns_null_witness:
  "navigated fixture_empty fixture_url \<and> row_count fixture_empty = Inr 0
   \<and> browser_close fixture_empty 0 = None
   \<and> pageScrape fixture_empty ''DAL'' ''HOU'' ''2025-02-01'' fixture_url =
       (Returned None,
        [Console LOG (Starting ''DAL'' ''HOU'' ''2025-02-01''), Goto fixture_url 90000,
         ScrollBy 0 450, WaitForTimeout 3000, CountRows,
         Console WARN NoFlightData, BrowserClose])
   \<and> inserts_of (snd (pageScrape fixture_empty ''DAL'' ''HOU'' ''2025-02-01'' fixture_url)) = []"
  using zero_rows_returns_null [OF fixture_empty_navigated fixture_empty_row_count,
      of "''DAL''" "''HOU''" "''2025-02-01''"]
  by (simp add: fixture_empty_navigated fixture_empty_row_count fixture_empty_close
      fixture_empty_nav_trace)

theorem zero_rows_not_empty_sequence:
  "navigated fixture_empty fixture_url \<and> row_count fixture_empty = Inr 0
   \<and> fst (pageScrape fixture_empty ''DAL'' ''HOU'' ''2025-02-01'' fixture_url) \<noteq> Returned (Some [])
   \<and> fst (pageScrape fixture_empty ''DAL'' ''HOU'' ''2025-02-01'' fixture_url) = Returned None"
  by (simp add: pageScrape_navigated
        [OF fixture_empty_navigated fixture_empty_row_count fixture_empty_close]
      fixture_empty_navigated fixture_empty_row_count)

text \<open>
  Claim C4. When the invocation gets as far as the row count and the count is positive,
  the array built by the row loop, the one printed at line 272 and returned when the
  closing of the browser completes, holds the records of exactly the rows of \<open>1..count\<close>
  whose extraction does not throw, in row order, so their number is \<open>count\<close> minus the
  number of rows that throw. A row \<open>k\<close> that throws \<open>e\<close> is among the failed rows and not
  among the extracted ones, its error line is in the trace, and every later row that
  does not throw is still extracted.
\<close>

theorem row_failure_is_isolated:
  assumes "navigated w url" and "row_count w = Inr count" and "0 < count"
  shows "\<exists>flights.
      flights = map (\<lambda>k. projr (extractRow w dept arr dateStr k))
                    (extracted_rows w dept arr dateStr count)
    \<and> (browser_close w 0 = None \<longrightarrow>
          fst (pageScrape w dept arr dateStr url) = Returned (Some flights))
    \<and> Console LOG (Flights flights) \<in> set (snd (pageScrape w dept arr dateStr url))
    \<and> length flights = count - length (failed_rows w dept arr dateStr count)
    \<and> (\<forall>k e. 1 \<le> k \<and> k \<le> count \<and> extractRow w dept arr dateStr k = Inl e \<longrightarrow>
          k \<in> set (failed_rows w dept arr dateStr count)
          \<and> k \<notin> set (extracted_rows w dept arr dateStr count)
          \<and> Console ERROR (ErrorProcessingFlight k e)
               \<in> set (snd (pageScrape w dept arr dateStr url))
          \<and> (\<forall>k'. k < k' \<and> k' \<le> count \<and> \<not> isl (extractRow w dept arr dateStr k') \<longrightarrow>
                k' \<in> set (extracted_rows w dept arr dateStr count)))"
proof -
  let ?flights = "map (\<lambda>k. projr (extractRow w dept arr dateStr k))
                    (extracted_rows w dept arr dateStr count)"
  let ?errs = "map (\<lambda>k. Console ERROR
                                 (ErrorProcessingFlight k (projl (extractRow w dept arr dateStr k))))
                       (failed_rows w dept arr dateStr count)"
  have returned: "fst (pageScrape w dept arr dateStr url) = Returned (Some ?flights)"
    if "browser_close w 0 = None"
    using assms(3) by (simp add: pageScrape_navigated [OF assms(1,2) that] Let_def)
  have tr: "\<exists>post. snd (pageScrape w dept arr dateStr url) =
              nav_trace w dept arr dateStr url @ ?errs @ Console LOG (Flights ?flights) # post"
  proof (cases "browser_close w 0")
    case None
    with assms(3) show ?thesis
      by (simp add: pageScrape_navigated [OF assms(1,2)] Let_def persist_eq)
  next
    case (Some e')
    with assms(3) show ?thesis
      unfolding pageScrape_navigated_any [OF assms(1,2)]
      by (simp add: Let_def persist_eq snd_catch_fatal)
  qed
  then obtain post where tr': "snd (pageScrape w dept arr dateStr url) =
              nav_trace w dept arr dateStr url @ ?errs @ Console LOG (Flights ?flights) # post" ..
  have fl: "Console LOG (Flights ?flights) \<in> set (snd (pageScrape w dept arr dateStr url))"
    unfolding tr' by simp
  have logged: "Console ERROR (ErrorProcessingFlight k e)
               \<in> set (snd (pageScrape w dept arr dateStr url))"
    if "k \<in> set (failed_rows w dept arr dateStr count)"
      and "extractRow w dept arr dateStr k = Inl e" for k e
  proof -
    from that have "Console ERROR (ErrorProcessingFlight k e) \<in> set ?errs"
      by force
    then show ?thesis
      unfolding tr' by simp
  qed
  have mem: "k \<in> set (failed_rows w dept arr dateStr count)
          \<and> k \<notin> set (extracted_rows w dept arr dateStr count)"
    if "1 \<le> k" "k \<le> count" "extractRow w dept arr dateStr k = Inl e" for k e
    using that by (auto simp: failed_rows_def extracted_rows_def simp del: upt_Suc)
  have later: "k' \<in> set (extracted_rows w dept arr dateStr count)"
    if "1 \<le> k" "k < k'" "k' \<le> count" "\<not> isl (extractRow w dept arr dateStr k')" for k k'
    using that by (simp add: extracted_rows_def del: upt_Suc)
  have len: "length ?flights = count - length (failed_rows w dept arr dateStr count)"
    by (simp add: length_extracted_rows)
  from returned have ret: "browser_close w 0 = None \<longrightarrow>
          fst (pageScrape w dept arr dateStr url) = Returned (Some ?flights)"
    by blast
  from logged mem later have rows:
    "\<forall>k e. 1 \<le> k \<and> k \<le> count \<and> extractRow w dept arr dateStr k = Inl e \<longrightarrow>
          k \<in> set (failed_rows w dept arr dateStr count)
          \<and> k \<notin> set (extracted_rows w dept arr dateStr count)
          \<and> Console ERROR (ErrorProcessingFlight k e)
               \<in> set (snd (pageScrape w dept arr dateStr url))
          \<and> (\<forall>k'. k < k' \<and> k' \<le> count \<and> \<not> isl (extractRow w dept arr dateStr k') \<longrightarrow>
                k' \<in> set (extracted_rows w dept arr dateStr count))"
    by blast
  show ?thesis
    by (rule exI [of _ ?flights]) (intro conjI refl ret fl len rows)
qed

theorem row_failure_is_isolated_witness:
  "navigated fixture_row1_throws fixture_url \<and> row_count fixture_row1_throws = Inr 2
   \<and> (0::nat) < 2
   \<and> browser_close fixture_row1_throws 0 = None
   \<and> (1::nat) \<le> 1 \<and> (1::nat) \<le> 2
   \<and> extractRow fixture_row1_throws ''DAL'' ''HOU'' ''2025-02-01'' 1 = Inl (Error ''detached'')
   \<and> fst (pageScrape fixture_row1_throws ''DAL'' ''HOU'' ''2025-02-01'' fixture_url)
        = Returned (Some [fixture_flight2])
   \<and> Console LOG (Flights [fixture_flight2])
        \<in> set (snd (pageScrape fixture_row1_throws ''DAL'' ''HOU'' ''2025-02-01'' fixture_url))
   \<and> length [fixture_flight2] = 2 - length [1::nat]
   \<and> Console ERROR (ErrorProcessingFlight 1 (Error ''detached''))
        \<in> set (snd (pageScrape fixture_row1_throws ''DAL'' ''HOU'' ''2025-02-01'' fixture_url))
   \<and> (1::nat) < 2 \<and> (2::nat) \<le> 2
   \<and> \<not> isl (extractRow fixture_row1_throws ''DAL'' ''HOU'' ''2025-02-01'' 2)
   \<and> 2 \<in> set (extracted_rows fixture_row1_throws ''DAL'' ''HOU'' ''2025-02-01'' 2)"
proof -
  have pos: "(0::nat) < 2" by simp
  have close: "browser_close fixture_row1_throws 0 = None"
    by (rule fixture_row1_throws_close)
  have rows: "map (\<lambda>k. projr (extractRow fixture_row1_throws ''DAL'' ''HOU'' ''2025-02-01'' k))
                (extracted_rows fixture_row1_throws ''DAL'' ''HOU'' ''2025-02-01'' 2)
              = [fixture_flight2]"
    by (simp add: fixture_row1_throws_rows fixture_row1_throws_row2)
  from row_failure_is_isolated
         [OF fixture_row1_throws_navigated fixture_row1_throws_row_count pos,
          of "''DAL''" "''HOU''" "''2025-02-01''"]
  have all: "(browser_close fixture_row1_throws 0 = None \<longrightarrow>
          fst (pageScrape fixture_row1_throws ''DAL'' ''HOU'' ''2025-02-01'' fixture_url)
            = Returned (Some [fixture_flight2]))
    \<and> Console LOG (Flights [fixture_flight2])
        \<in> set (snd (pageScrape fixture_row1_throws ''DAL'' ''HOU'' ''2025-02-01'' fixture_url))
    \<and> (\<forall>k e. 1 \<le> k \<and> k \<le> 2
          \<and> extractRow fixture_row1_throws ''DAL'' ''HOU'' ''2025-02-01'' k = Inl e \<longrightarrow>
          Console ERROR (ErrorProcessingFlight k e)
            \<in> set (snd (pageScrape fixture_row1_throws ''DAL'' ''HOU'' ''2025-02-01'' fixture_url)))"
    unfolding rows by simp
  from all close have run:
    "fst (pageScrape fixture_row1_throws ''DAL'' ''HOU'' ''2025-02-01'' fixture_url)
       = Returned (Some [fixture_flight2])"
    by simp
  from all have pr: "Console LOG (Flights [fixture_flight2])
        \<in> set (snd (pageScrape fixture_row1_throws ''DAL'' ''HOU'' ''2025-02-01'' fixture_url))"
    by simp
  from all have "1 \<le> (1::nat) \<and> (1::nat) \<le> 2
          \<and> extractRow fixture_row1_throws ''DAL'' ''HOU'' ''2025-02-01'' 1 = Inl (Error ''detached'') \<longrightarrow>
          Console ERROR (ErrorProcessingFlight 1 (Error ''detached''))
            \<in> set (snd (pageScrape fixture_row1_throws ''DAL'' ''HOU'' ''2025-02-01'' fixture_url))"
    by blast
  with fixture_row1_throws_row1 have logged:
    "Console ERROR (ErrorProcessingFlight 1 (Error ''detached''))
        \<in> set (snd (pageScrape fixture_row1_throws ''DAL'' ''HOU'' ''2025-02-01'' fixture_url))"
    by simp
  from run pr logged close fixture_row1_throws_navigated fixture_row1_throws_row_count
    fixture_row1_throws_row1 fixture_row1_throws_row2
  show ?thesis
    by (simp add: fixture_row1_throws_rows)
qed



text \<open>
  Claim C6, as amended. Once the browser has started: when the first call of
  \<^verbatim>\<open>browser.close()\<close> completes, the browser is closed exactly once, that call is the
  last event, and the invocation returns (the array or \<^verbatim>\<open>null\<close>). In every case the
  invocation issues one or two close calls and its last event is a close call; when it
  returns, its last close call completed; and every earlier close call threw, so that no
  close call follows one that completed. The claim as stated says exactly once on every
  path; the third theorem below shows an invocation with two close calls (the close of
  line 137 throws, the \<^verbatim>\<open>catch\<close> closes again and returns \<^verbatim>\<open>null\<close>) and one that ends by
  throwing, the browser not closed (the load times out and the close call of the
  \<^verbatim>\<open>catch\<close> throws).
\<close>

theorem browser_closed_once_if_close_completes:
  assumes "launch w = None"
  shows "(browser_close w 0 = None \<longrightarrow>
            closes_of (snd (pageScrape w dept arr dateStr url)) = 1
            \<and> (\<exists>r tr. pageScrape w dept arr dateStr url = (Returned r, tr @ [BrowserClose])))
    \<and> 1 \<le> closes_of (snd (pageScrape w dept arr dateStr url))
    \<and> closes_of (snd (pageScrape w dept arr dateStr url)) \<le> 2
    \<and> (\<exists>tr. snd (pageScrape w dept arr dateStr url) = tr @ [BrowserClose])
    \<and> (\<forall>r. fst (pageScrape w dept arr dateStr url) = Returned r \<longrightarrow>
          browser_close w (closes_of (snd (pageScrape w dept arr dateStr url)) - 1) = None)
    \<and> (\<forall>k. k < closes_of (snd (pageScrape w dept arr dateStr url)) - 1 \<longrightarrow>
          browser_close w k \<noteq> None)"
  using pageScrape_close_calls [OF assms, of dept arr dateStr url]
proof (elim disjE exE conjE)
  fix tr
  assume tr: "closes_of tr = 0"
    and sn: "snd (pageScrape w dept arr dateStr url) = tr @ [BrowserClose]"
    and out: "case browser_close w 0 of
                None \<Rightarrow> \<exists>r. fst (pageScrape w dept arr dateStr url) = Returned r
              | Some e \<Rightarrow> fst (pageScrape w dept arr dateStr url) = Rejected e"
  have n: "closes_of (snd (pageScrape w dept arr dateStr url)) = 1"
    by (simp add: sn tr)
  have ret: "\<exists>r tr. pageScrape w dept arr dateStr url = (Returned r, tr @ [BrowserClose])"
    if "browser_close w 0 = None"
  proof -
    from out that obtain r where "fst (pageScrape w dept arr dateStr url) = Returned r"
      by auto
    with sn have "pageScrape w dept arr dateStr url = (Returned r, tr @ [BrowserClose])"
      by (simp add: prod_eq_iff)
    then show ?thesis by blast
  qed
  have completed: "browser_close w 0 = None"
    if "fst (pageScrape w dept arr dateStr url) = Returned r" for r
    using out that by (cases "browser_close w 0") simp_all
  from n ret completed sn show ?thesis
    by auto
next
  fix tr e
  assume tr: "closes_of tr = 0"
    and first: "browser_close w 0 = Some e"
    and sn: "snd (pageScrape w dept arr dateStr url) =
               tr @ [BrowserClose, Console ERROR (FatalScraperError e), BrowserClose]"
    and out: "fst (pageScrape w dept arr dateStr url) =
                (case browser_close w 1 of None \<Rightarrow> Returned None | Some e' \<Rightarrow> Rejected e')"
  have n: "closes_of (snd (pageScrape w dept arr dateStr url)) = 2"
    by (simp add: sn tr)
  have completed: "browser_close w 1 = None"
    if "fst (pageScrape w dept arr dateStr url) = Returned r" for r
    using out that by (cases "browser_close w 1") simp_all
  have last: "\<exists>tr. snd (pageScrape w dept arr dateStr url) = tr @ [BrowserClose]"
    unfolding sn
    by (rule exI [of _ "tr @ [BrowserClose, Console ERROR (FatalScraperError e)]"]) simp
  from n first completed last show ?thesis
    by auto
qed

theorem browser_closed_once_if_close_completes_witness:
  "launch fixture_empty = None \<and> browser_close fixture_empty 0 = None
   \<and> fst (pageScrape fixture_empty ''DAL'' ''HOU'' ''2025-02-01'' fixture_url) = Returned None
   \<and> closes_of (snd (pageScrape fixture_empty ''DAL'' ''HOU'' ''2025-02-01'' fixture_url)) = 1
   \<and> launch fixture = None \<and> browser_close fixture 0 = None
   \<and> fst (pageScrape fixture ''DAL'' ''HOU'' ''2025-02-01'' fixture_url)
        = Returned (Some [fixture_flight1, fixture_flight2])
   \<and> closes_of (snd (pageScrape fixture ''DAL'' ''HOU'' ''2025-02-01'' fixture_url)) = 1
   \<and> launch fixture_load_timeout = None \<and> browser_close fixture_load_timeout 0 = None
   \<and> fst (pageScrape fixture_load_timeout ''DAL'' ''HOU'' ''2025-02-01'' fixture_url) = Returned None
   \<and> closes_of (snd (pageScrape fixture_load_timeout ''DAL'' ''HOU'' ''2025-02-01'' fixture_url)) = 1
   \<and> launch fixture_close_throws_once = None
   \<and> fst (pageScrape fixture_close_throws_once ''DAL'' ''HOU'' ''2025-02-01'' fixture_url)
        = Returned None
   \<and> closes_of (snd (pageScrape fixture_close_throws_once ''DAL'' ''HOU'' ''2025-02-01'' fixture_url))
        = 2
   \<and> browser_close fixture_close_throws_once (2 - 1) = None
   \<and> (0::nat) < 2 - 1
   \<and> browser_close fixture_close_throws_once 0 \<noteq> None"
proof -
  have l: "launch fixture_empty = None" "launch fixture = None"
    "launch fixture_load_timeout = None" "launch fixture_close_throws_once = None"
    by (simp_all add: fixture_empty_def fixture_load_timeout_def fixture_close_throws_once_def
        fixture_def)
  have c: "browser_close fixture_empty 0 = None" "browser_close fixture 0 = None"
    "browser_close fixture_load_timeout 0 = None"
    "browser_close fixture_close_throws_once (Suc 0) = None"
    "browser_close fixture_close_throws_once 0 \<noteq> None"
    by (simp_all add: fixture_empty_def fixture_load_timeout_def fixture_close_throws_once_def
        fixture_def)
  from browser_closed_once_if_close_completes [OF l(1), of "''DAL''" "''HOU''" "''2025-02-01''" fixture_url] c(1)
  have 1: "closes_of (snd (pageScrape fixture_empty ''DAL'' ''HOU'' ''2025-02-01'' fixture_url)) = 1"
    by blast
  from browser_closed_once_if_close_completes [OF l(2), of "''DAL''" "''HOU''" "''2025-02-01''" fixture_url] c(2)
  have 2: "closes_of (snd (pageScrape fixture ''DAL'' ''HOU'' ''2025-02-01'' fixture_url)) = 1"
    by blast
  from browser_closed_once_if_close_completes [OF l(3), of "''DAL''" "''HOU''" "''2025-02-01''" fixture_url] c(3)
  have 3: "closes_of (snd (pageScrape fixture_load_timeout ''DAL'' ''HOU'' ''2025-02-01'' fixture_url)) = 1"
    by blast
  have 4: "closes_of (snd (pageScrape fixture_close_throws_once ''DAL'' ''HOU'' ''2025-02-01'' fixture_url)) = 2"
    by (simp add: fixture_close_throws_once_run)
  from browser_closed_once_if_close_completes [OF l(4), of "''DAL''" "''HOU''" "''2025-02-01''" fixture_url]
  have "fst (pageScrape fixture_close_throws_once ''DAL'' ''HOU'' ''2025-02-01'' fixture_url)
          = Returned None \<longrightarrow>
        browser_close fixture_close_throws_once
          (closes_of (snd (pageScrape fixture_close_throws_once ''DAL'' ''HOU'' ''2025-02-01'' fixture_url)) - 1)
          = None"
    by blast
  then have 5: "browser_close fixture_close_throws_once (2 - 1) = None"
    by (simp add: fixture_close_throws_once_run)
  from 1 2 3 4 5 l c show ?thesis
    by (simp add: fixture_run fixture_empty_run fixture_load_timeout_run
        fixture_close_throws_once_run)
qed

theorem close_throws_two_close_calls:
  "launch fixture_close_throws_once = None
   \<and> pageScrape fixture_close_throws_once ''DAL'' ''HOU'' ''2025-02-01'' fixture_url =
     (Returned None,
      [Console LOG (Starting ''DAL'' ''HOU'' ''2025-02-01''), Goto fixture_url 90000,
       ScrollBy 0 450, WaitForTimeout 3000, CountRows, Console WARN NoFlightData,
       BrowserClose, Console ERROR (FatalScraperError (Error ''close failed'')),
       BrowserClose])
   \<and> closes_of (snd (pageScrape fixture_close_throws_once ''DAL'' ''HOU'' ''2025-02-01'' fixture_url))
        = 2
   \<and> launch fixture_close_throws = None
   \<and> pageScrape fixture_close_throws ''DAL'' ''HOU'' ''2025-02-01'' fixture_url =
     (Rejected (Error ''close failed''),
      [Console LOG (Starting ''DAL'' ''HOU'' ''2025-02-01''), Goto fixture_url 90000,
       Console ERROR (FatalScraperError TimeoutError), BrowserClose])
   \<and> browser_close fixture_close_throws 0 = Some (Error ''close failed'')"
proof -
  have "launch fixture_close_throws_once = None" "launch fixture_close_throws = None"
    "browser_close fixture_close_throws 0 = Some (Error ''close failed'')"
    by (simp_all add: fixture_close_throws_once_def fixture_close_throws_def fixture_empty_def
        fixture_load_timeout_def fixture_def)
  then show ?thesis
    by (simp add: fixture_close_throws_once_run fixture_close_throws_run)
qed



text \<open>
  Claim C8. After a load that completes, the invocation goes on from the scroll exactly
  as an invocation whose load landed on the requested address: with the same events
  \<open>rest\<close> after the scroll, none of them a pointer click, and with the same outcome. Before
  the scroll:
  \<^item> when the page address is the requested one, the scroll follows the load at once and
    the trace has no pointer click;
  \<^item> when it differs and the wait for the submit button (timeout 5000 ms) finds it and
    the click completes, the trace has the redirect line, the wait, the click on that
    button and a delay of 5000 ms;
  \<^item> when it differs and the wait throws, the trace has the redirect line, the wait and
    the warning, and the trace has no pointer click;
  \<^item> when the click itself throws, the warning replaces the delay.
  In each case the invocation is not ended there: when the scroll completes the rows are
  counted, and when the count is positive and the closing of the browser completes, the
  records of the rows that do not throw are returned.
\<close>

theorem redirect_search_click:
  assumes "launch w = None" and "newPage w = None" and "createCursor w = None"
    and "installMouseHelper w = None" and "goto w url = None"
  shows
    "(\<exists>rest.
        snd (pageScrape (w\<lparr>page_url := url\<rparr>) dept arr dateStr url) =
          [Console LOG (Starting dept arr dateStr), Goto url 90000, ScrollBy 0 450] @ rest
      \<and> filter is_click rest = []
      \<and> (page_url w = url \<longrightarrow>
            snd (pageScrape w dept arr dateStr url) =
              [Console LOG (Starting dept arr dateStr), Goto url 90000, ScrollBy 0 450] @ rest
            \<and> filter is_click (snd (pageScrape w dept arr dateStr url)) = [])
      \<and> (page_url w \<noteq> url \<longrightarrow>
            (\<forall>search. waitForXPath_submit w 5000 = Inr search \<and> cursor_click w search = None \<longrightarrow>
               snd (pageScrape w dept arr dateStr url) =
                 [Console LOG (Starting dept arr dateStr), Goto url 90000,
                  Console LOG RedirectDetected, WaitForXPath 5000,
                  CursorClick search 2500 25, WaitForTimeout 5000, ScrollBy 0 450] @ rest)
          \<and> (\<forall>e. waitForXPath_submit w 5000 = Inl e \<longrightarrow>
               snd (pageScrape w dept arr dateStr url) =
                 [Console LOG (Starting dept arr dateStr), Goto url 90000,
                  Console LOG RedirectDetected, WaitForXPath 5000,
                  Console WARN NoSearchButton, ScrollBy 0 450] @ rest
               \<and> filter is_click (snd (pageScrape w dept arr dateStr url)) = [])
          \<and> (\<forall>search e. waitForXPath_submit w 5000 = Inr search
                          \<and> cursor_click w search = Some e \<longrightarrow>
               snd (pageScrape w dept arr dateStr url) =
                 [Console LOG (Starting dept arr dateStr), Goto url 90000,
                  Console LOG RedirectDetected, WaitForXPath 5000,
                  CursorClick search 2500 25, Console WARN NoSearchButton,
                  ScrollBy 0 450] @ rest)))
   \<and> fst (pageScrape w dept arr dateStr url)
       = fst (pageScrape (w\<lparr>page_url := url\<rparr>) dept arr dateStr url)
   \<and> (scrollBy w = None \<longrightarrow> CountRows \<in> set (snd (pageScrape w dept arr dateStr url)))
   \<and> (\<forall>count. scrollBy w = None \<and> row_count w = Inr count \<and> 0 < count
                \<and> browser_close w 0 = None \<longrightarrow>
          fst (pageScrape w dept arr dateStr url) =
            Returned (Some (map (\<lambda>k. projr (extractRow w dept arr dateStr k))
                              (extracted_rows w dept arr dateStr count))))"
proof -
  let ?w = "w\<lparr>page_url := url\<rparr>"
  have w': "launch ?w = None" "newPage ?w = None" "createCursor ?w = None"
    "installMouseHelper ?w = None" "goto ?w url = None"
    using assms by simp_all
  from pageScrape_after_goto [OF w', of dept arr dateStr] obtain rest where
    base: "snd (pageScrape ?w dept arr dateStr url) =
             [Console LOG (Starting dept arr dateStr), Goto url 90000, ScrollBy 0 450] @ rest"
    and rest: "filter is_click rest = []"
    by (auto simp: redirect_check_same)
  note tail = pageScrape_redirect_tail [OF assms, of dept arr dateStr]
  have tr: "snd (pageScrape w dept arr dateStr url) =
              redirect_check w url [Console LOG (Starting dept arr dateStr), Goto url 90000]
                @ ScrollBy 0 450 # rest"
    by (subst tail) (simp add: base)
  have out: "fst (pageScrape w dept arr dateStr url) = fst (pageScrape ?w dept arr dateStr url)"
    by (subst tail) simp
  have same:
    "page_url w = url \<longrightarrow>
            snd (pageScrape w dept arr dateStr url) =
              [Console LOG (Starting dept arr dateStr), Goto url 90000, ScrollBy 0 450] @ rest
            \<and> filter is_click (snd (pageScrape w dept arr dateStr url)) = []"
    unfolding tr using rest by (simp add: redirect_check_def)
  have differs:
    "page_url w \<noteq> url \<longrightarrow>
            (\<forall>search. waitForXPath_submit w 5000 = Inr search \<and> cursor_click w search = None \<longrightarrow>
               snd (pageScrape w dept arr dateStr url) =
                 [Console LOG (Starting dept arr dateStr), Goto url 90000,
                  Console LOG RedirectDetected, WaitForXPath 5000,
                  CursorClick search 2500 25, WaitForTimeout 5000, ScrollBy 0 450] @ rest)
          \<and> (\<forall>e. waitForXPath_submit w 5000 = Inl e \<longrightarrow>
               snd (pageScrape w dept arr dateStr url) =
                 [Console LOG (Starting dept arr dateStr), Goto url 90000,
                  Console LOG RedirectDetected, WaitForXPath 5000,
                  Console WARN NoSearchButton, ScrollBy 0 450] @ rest
               \<and> filter is_click (snd (pageScrape w dept arr dateStr url)) = [])
          \<and> (\<forall>search e. waitForXPath_submit w 5000 = Inr search
                          \<and> cursor_click w search = Some e \<longrightarrow>
               snd (pageScrape w dept arr dateStr url) =
                 [Console LOG (Starting dept arr dateStr), Goto url 90000,
                  Console LOG RedirectDetected, WaitForXPath 5000,
                  CursorClick search 2500 25, Console WARN NoSearchButton,
                  ScrollBy 0 450] @ rest)"
    unfolding tr using rest by (simp add: redirect_check_def)
  have counted: "CountRows \<in> set (snd (pageScrape w dept arr dateStr url))"
    if "scrollBy w = None"
    by (rule pageScrape_counts_rows [OF assms that])
  have extracted: "fst (pageScrape w dept arr dateStr url) =
            Returned (Some (map (\<lambda>k. projr (extractRow w dept arr dateStr k))
                              (extracted_rows w dept arr dateStr count)))"
    if "scrollBy w = None" "row_count w = Inr count" "0 < count" "browser_close w 0 = None"
    for count
  proof -
    from assms that(1) have "navigated w url"
      by (simp add: navigated_def)
    from pageScrape_navigated [OF this that(2,4)] that(3) show ?thesis
      by (simp add: Let_def)
  qed
  from counted have cnt:
    "scrollBy w = None \<longrightarrow> CountRows \<in> set (snd (pageScrape w dept arr dateStr url))"
    by blast
  from extracted have ext:
    "\<forall>count. scrollBy w = None \<and> row_count w = Inr count \<and> 0 < count
                \<and> browser_close w 0 = None \<longrightarrow>
          fst (pageScrape w dept arr dateStr url) =
            Returned (Some (map (\<lambda>k. projr (extractRow w dept arr dateStr k))
                              (extracted_rows w dept arr dateStr count)))"
    by blast
  show ?thesis
    by (intro conjI exI [of _ rest] base rest same differs out cnt ext)
qed

theorem redirect_search_click_witness:
  "launch fixture = None \<and> newPage fixture = None \<and> createCursor fixture = None
   \<and> installMouseHelper fixture = None \<and> goto fixture fixture_url = None
   \<and> page_url fixture = fixture_url
   \<and> take 3 (snd (pageScrape fixture ''DAL'' ''HOU'' ''2025-02-01'' fixture_url)) =
        [Console LOG (Starting ''DAL'' ''HOU'' ''2025-02-01''), Goto fixture_url 90000,
         ScrollBy 0 450]
   \<and> filter is_click (snd (pageScrape fixture ''DAL'' ''HOU'' ''2025-02-01'' fixture_url)) = []
   \<and> launch fixture_redirect = None \<and> newPage fixture_redirect = None
   \<and> createCursor fixture_redirect = None \<and> installMouseHelper fixture_redirect = None
   \<and> goto fixture_redirect fixture_url = None
   \<and> page_url fixture_redirect \<noteq> fixture_url
   \<and> waitForXPath_submit fixture_redirect 5000 = Inr 42
   \<and> cursor_click fixture_redirect 42 = None
   \<and> take 7 (snd (pageScrape fixture_redirect ''DAL'' ''HOU'' ''2025-02-01'' fixture_url)) =
        [Console LOG (Starting ''DAL'' ''HOU'' ''2025-02-01''), Goto fixture_url 90000,
         Console LOG RedirectDetected, WaitForXPath 5000,
         CursorClick 42 2500 25, WaitForTimeout 5000, ScrollBy 0 450]
   \<and> launch fixture_redirect_no_button = None \<and> newPage fixture_redirect_no_button = None
   \<and> createCursor fixture_redirect_no_button = None
   \<and> installMouseHelper fixture_redirect_no_button = None
   \<and> goto fixture_redirect_no_button fixture_url = None
   \<and> page_url fixture_redirect_no_button \<noteq> fixture_url
   \<and> waitForXPath_submit fixture_redirect_no_button 5000 = Inl TimeoutError
   \<and> take 6 (snd (pageScrape fixture_redirect_no_button ''DAL'' ''HOU'' ''2025-02-01'' fixture_url)) =
        [Console LOG (Starting ''DAL'' ''HOU'' ''2025-02-01''), Goto fixture_url 90000,
         Console LOG RedirectDetected, WaitForXPath 5000,
         Console WARN NoSearchButton, ScrollBy 0 450]
   \<and> filter is_click
        (snd (pageScrape fixture_redirect_no_button ''DAL'' ''HOU'' ''2025-02-01'' fixture_url)) = []
   \<and> scrollBy fixture_redirect_no_button = None
   \<and> row_count fixture_redirect_no_button = Inr 2 \<and> (0::nat) < 2
   \<and> browser_close fixture_redirect_no_button 0 = None
   \<and> CountRows
        \<in> set (snd (pageScrape fixture_redirect_no_button ''DAL'' ''HOU'' ''2025-02-01'' fixture_url))
   \<and> fst (pageScrape fixture_redirect_no_button ''DAL'' ''HOU'' ''2025-02-01'' fixture_url)
        = Returned (Some [fixture_flight1, fixture_flight2])"
proof -
  note a = redirect_search_click [OF fixture_fields(1-5),
      of "''DAL''" "''HOU''" "''2025-02-01''"]
  note b = redirect_search_click [OF fixture_redirect_fields(1-5),
      of "''DAL''" "''HOU''" "''2025-02-01''"]
  note c = redirect_search_click [OF fixture_redirect_no_button_fields(1-5),
      of "''DAL''" "''HOU''" "''2025-02-01''"]
  from a fixture_fields(6) have 1:
    "take 3 (snd (pageScrape fixture ''DAL'' ''HOU'' ''2025-02-01'' fixture_url)) =
        [Console LOG (Starting ''DAL'' ''HOU'' ''2025-02-01''), Goto fixture_url 90000,
         ScrollBy 0 450]"
    "filter is_click (snd (pageScrape fixture ''DAL'' ''HOU'' ''2025-02-01'' fixture_url)) = []"
    by auto
  from b fixture_redirect_fields(6-8) have 2:
    "take 7 (snd (pageScrape fixture_redirect ''DAL'' ''HOU'' ''2025-02-01'' fixture_url)) =
        [Console LOG (Starting ''DAL'' ''HOU'' ''2025-02-01''), Goto fixture_url 90000,
         Console LOG RedirectDetected, WaitForXPath 5000,
         CursorClick 42 2500 25, WaitForTimeout 5000, ScrollBy 0 450]"
    by auto
  from c fixture_redirect_no_button_fields(6-7) have 3:
    "take 6 (snd (pageScrape fixture_redirect_no_button ''DAL'' ''HOU'' ''2025-02-01'' fixture_url)) =
        [Console LOG (Starting ''DAL'' ''HOU'' ''2025-02-01''), Goto fixture_url 90000,
         Console LOG RedirectDetected, WaitForXPath 5000,
         Console WARN NoSearchButton, ScrollBy 0 450]"
    "filter is_click
        (snd (pageScrape fixture_redirect_no_button ''DAL'' ''HOU'' ''2025-02-01'' fixture_url)) = []"
    by auto
  from c fixture_redirect_no_button_rows(1) have 4:
    "CountRows
        \<in> set (snd (pageScrape fixture_redirect_no_button ''DAL'' ''HOU'' ''2025-02-01'' fixture_url))"
    by blast
  from c have
    "scrollBy fixture_redirect_no_button = None
     \<and> row_count fixture_redirect_no_button = Inr 2 \<and> (0::nat) < 2
     \<and> browser_close fixture_redirect_no_button 0 = None \<longrightarrow>
     fst (pageScrape fixture_redirect_no_button ''DAL'' ''HOU'' ''2025-02-01'' fixture_url)
       = Returned (Some (map (\<lambda>k. projr (extractRow fixture_redirect_no_button
                                              ''DAL'' ''HOU'' ''2025-02-01'' k))
                           (extracted_rows fixture_redirect_no_button
                              ''DAL'' ''HOU'' ''2025-02-01'' 2)))"
    by blast
  with fixture_redirect_no_button_rows fixture_redirect_no_button_records have 5:
    "fst (pageScrape fixture_redirect_no_button ''DAL'' ''HOU'' ''2025-02-01'' fixture_url)
        = Returned (Some [fixture_flight1, fixture_flight2])"
    by simp
  from 1 2 3 4 5 fixture_fields fixture_redirect_fields fixture_redirect_no_button_fields
    fixture_redirect_no_button_rows
  show ?thesis by simp
qed





end
